theory Spec2Isabelle
  imports Main "HOL-Library.Word" "HOL-Library.Monad_Syntax" "HOL-Library.Multiset"
begin

unbundle bit_operations_syntax

section \<open>Data model\<close>

text \<open>
  The kernels are instantiated with \<open>VertexId = SizeT = Value = int\<close> (see
  \<open>dispatch_cc\<close>: template type \<open><int, int, int>\<close>), so all three are 32-bit
  two's-complement words: \<open>+\<close> and \<open>-\<close> wrap, comparisons read the word with
  \<open>sint\<close>.
\<close>

type_synonym VertexId = "32 word"
type_synonym SizeT = "32 word"
type_synonym Value = "32 word"

text \<open>\<open>cudaError_t\<close>: \<open>cudaSuccess\<close> is 0, every other value is a failure.\<close>

type_synonym cudaError_t = nat

definition cudaSuccess :: cudaError_t where
  "cudaSuccess = 0"

definition INT_MIN :: "32 word" where
  "INT_MIN = 0x80000000"

definition INT_MAX :: "32 word" where
  "INT_MAX = 0x7fffffff"

text \<open>
  The enumerations \<open>TYPE\<close>, \<open>REDUCE_TYPE\<close> and \<open>REDUCE_OP\<close> of
  \<open>gunrock::oprtr::advance\<close>, with the enumerators the kernels name.
\<close>

datatype advance_TYPE = V2V | V2E | E2V | E2E

datatype REDUCE_TYPE = EMPTY | VERTEX | EDGE

datatype REDUCE_OP = NONE | PLUS | MULTIPLIES | MAXIMUM | MINIMUM | BIT_OR | BIT_AND | BIT_XOR

section \<open>Advance: the value stored in the reduce frontier for a rejected edge\<close>

text \<open>
  \<open>RelaxLightEdges\<close>, branch \<open>!ProblemData::MARK_PREDECESSORS\<close>, \<open>CondEdge\<close> false,
  \<open>d_value_to_reduce != NULL\<close>: the \<open>switch (R_OP)\<close> that selects the value stored at
  \<open>d_reduce_frontier + offset + i\<close>.
\<close>

fun RelaxLightEdges_reject_value :: "REDUCE_OP \<Rightarrow> Value" where
  "RelaxLightEdges_reject_value PLUS = 0"
| "RelaxLightEdges_reject_value MULTIPLIES = 1"
| "RelaxLightEdges_reject_value MAXIMUM = INT_MIN"
| "RelaxLightEdges_reject_value MINIMUM = INT_MAX"
| "RelaxLightEdges_reject_value BIT_OR = 0"
| "RelaxLightEdges_reject_value BIT_AND = 0xffffffff"
| "RelaxLightEdges_reject_value BIT_XOR = 0"
| "RelaxLightEdges_reject_value NONE = 0"

text \<open>The same switch in the \<open>MARK_PREDECESSORS\<close> branch of \<open>RelaxLightEdges\<close>.\<close>

fun RelaxLightEdges_pred_reject_value :: "REDUCE_OP \<Rightarrow> Value" where
  "RelaxLightEdges_pred_reject_value PLUS = 0"
| "RelaxLightEdges_pred_reject_value MULTIPLIES = 1"
| "RelaxLightEdges_pred_reject_value MAXIMUM = INT_MIN"
| "RelaxLightEdges_pred_reject_value MINIMUM = INT_MAX"
| "RelaxLightEdges_pred_reject_value BIT_OR = 0"
| "RelaxLightEdges_pred_reject_value BIT_AND = 0xffffffff"
| "RelaxLightEdges_pred_reject_value BIT_XOR = 0"
| "RelaxLightEdges_pred_reject_value NONE = 0"

text \<open>\<open>RelaxPartitionedEdges2\<close>, branch \<open>!ProblemData::MARK_PREDECESSORS\<close>.\<close>

fun RelaxPartitionedEdges2_reject_value :: "REDUCE_OP \<Rightarrow> Value" where
  "RelaxPartitionedEdges2_reject_value PLUS = 0"
| "RelaxPartitionedEdges2_reject_value MULTIPLIES = 1"
| "RelaxPartitionedEdges2_reject_value MAXIMUM = INT_MIN"
| "RelaxPartitionedEdges2_reject_value MINIMUM = INT_MAX"
| "RelaxPartitionedEdges2_reject_value BIT_OR = 0"
| "RelaxPartitionedEdges2_reject_value BIT_AND = 0xffffffff"
| "RelaxPartitionedEdges2_reject_value BIT_XOR = 0"
| "RelaxPartitionedEdges2_reject_value NONE = 0"

text \<open>
  \<open>RelaxPartitionedEdges2\<close>, branch \<open>MARK_PREDECESSORS\<close>: this switch has the cases
  \<open>PLUS\<close>, \<open>MULTIPLIES\<close>, \<open>MAXIMUM\<close> and \<open>MINIMUM\<close> only; every other operator
  takes \<open>default\<close>, which stores \<open>(Value)0\<close>.
\<close>

fun RelaxPartitionedEdges2_pred_reject_value :: "REDUCE_OP \<Rightarrow> Value" where
  "RelaxPartitionedEdges2_pred_reject_value PLUS = 0"
| "RelaxPartitionedEdges2_pred_reject_value MULTIPLIES = 1"
| "RelaxPartitionedEdges2_pred_reject_value MAXIMUM = INT_MIN"
| "RelaxPartitionedEdges2_pred_reject_value MINIMUM = INT_MAX"
| "RelaxPartitionedEdges2_pred_reject_value _ = 0"

text \<open>The four code paths of the load-balanced advance, and the switch each one runs.\<close>

datatype advance_path = Light | Partitioned

definition reject_value :: "advance_path \<Rightarrow> bool \<Rightarrow> REDUCE_OP \<Rightarrow> Value" where
  "reject_value path MARK_PREDECESSORS R_OP =
     (case path of
        Light \<Rightarrow> (if \<not> MARK_PREDECESSORS then RelaxLightEdges_reject_value R_OP
                  else RelaxLightEdges_pred_reject_value R_OP)
      | Partitioned \<Rightarrow> (if \<not> MARK_PREDECESSORS then RelaxPartitionedEdges2_reject_value R_OP
                        else RelaxPartitionedEdges2_pred_reject_value R_OP))"

text \<open>The identity element of each reduction operator, as the specification lists them.\<close>

fun identity_element :: "REDUCE_OP \<Rightarrow> Value" where
  "identity_element PLUS = 0"
| "identity_element MULTIPLIES = 1"
| "identity_element MAXIMUM = INT_MIN"
| "identity_element MINIMUM = INT_MAX"
| "identity_element BIT_OR = 0"
| "identity_element BIT_AND = 0xffffffff"
| "identity_element BIT_XOR = 0"
| "identity_element NONE = 0"

section \<open>Enactor state\<close>

text \<open>
  \<open>EnactorStats\<close>: the fields the iteration structures read and write. The enactor keeps
  one array \<open>enactor_stats[num_gpus * num_gpus]\<close>; device \<open>gpu\<close> works on the slots
  \<open>gpu * num_gpus + peer\<close> (\<open>CCThread\<close>, \<open>BCThread\<close>, \<open>GetStatistics\<close>).
\<close>

record EnactorStats =
  iteration :: int
  retval :: cudaError_t

text \<open>
  The fields of the connected-components \<open>DataSlice\<close> that \<open>Stop_Condition\<close> reads:
  \<open>turn\<close>, \<open>in_length[2][num_gpus]\<close> and \<open>out_length[num_gpus]\<close>.
\<close>

record CC_DataSlice =
  turn :: int
  in_length :: "SizeT list list"
  out_length :: "SizeT list"

text \<open>
  \<open>CCIteration::Stop_Condition\<close>. Each \<open>for\<close> loop that returns from its body is a
  \<open>list_ex\<close> over the loop's index range, in the order of the source. \<open>num_gpus\<close>
  is an \<open>int\<close> that counts devices; it is a \<open>nat\<close> here.
\<close>

definition CCIteration_Stop_Condition ::
  "EnactorStats list \<Rightarrow> CC_DataSlice list \<Rightarrow> nat \<Rightarrow> bool" where
  "CCIteration_Stop_Condition enactor_stats data_slice num_gpus =
     (if list_ex (\<lambda>gpu. retval (enactor_stats ! gpu) \<noteq> cudaSuccess) [0..<num_gpus * num_gpus]
      then True
      else if num_gpus < 2 \<and> turn (data_slice ! 0) > 0 then True
      else if list_ex (\<lambda>gpu. turn (data_slice ! gpu) = 0) [0..<num_gpus] then False
      else if list_ex (\<lambda>gpu. list_ex (\<lambda>peer. list_ex (\<lambda>i.
                 in_length (data_slice ! gpu) ! i ! peer \<noteq> 0) [0..<2]) [1..<num_gpus])
              [0..<num_gpus]
      then False
      else if list_ex (\<lambda>gpu. list_ex (\<lambda>peer.
                 out_length (data_slice ! gpu) ! peer \<noteq> 0) [0..<num_gpus]) [0..<num_gpus]
      then False
      else True)"

text \<open>The arrays \<open>Stop_Condition\<close> indexes have the extents the enactor allocates.\<close>

definition CC_state_wf :: "EnactorStats list \<Rightarrow> CC_DataSlice list \<Rightarrow> nat \<Rightarrow> bool" where
  "CC_state_wf enactor_stats data_slice num_gpus =
     (0 < num_gpus
      \<and> length enactor_stats = num_gpus * num_gpus
      \<and> length data_slice = num_gpus
      \<and> list_all (\<lambda>d. length (in_length d) = 2
                        \<and> list_all (\<lambda>row. length row = num_gpus) (in_length d)
                        \<and> length (out_length d) = num_gpus
                        \<and> 0 \<le> turn d) data_slice)"

definition no_device_fault :: "EnactorStats list \<Rightarrow> nat \<Rightarrow> bool" where
  "no_device_fault enactor_stats num_gpus =
     list_all (\<lambda>gpu. retval (enactor_stats ! gpu) = cudaSuccess) [0..<num_gpus * num_gpus]"

text \<open>
  The generic stopping predicate in the specification's words: every device has completed
  at least one turn, no component-id changes remain to be sent (\<open>out_length\<close> is zero for
  every peer) and no cross-device input is pending (\<open>in_length\<close> is zero for every remote
  peer, in both buffers).
\<close>

definition generic_stop_predicate :: "CC_DataSlice list \<Rightarrow> nat \<Rightarrow> bool" where
  "generic_stop_predicate data_slice num_gpus =
     (list_all (\<lambda>gpu. 0 < turn (data_slice ! gpu)) [0..<num_gpus]
      \<and> list_all (\<lambda>gpu. list_all (\<lambda>peer. list_all (\<lambda>i.
            in_length (data_slice ! gpu) ! i ! peer = 0) [0..<2]) [1..<num_gpus]) [0..<num_gpus]
      \<and> list_all (\<lambda>gpu. list_all (\<lambda>peer.
            out_length (data_slice ! gpu) ! peer = 0) [0..<num_gpus]) [0..<num_gpus])"

text \<open>
  \<open>Backward_Iteration::Stop_Condition\<close> of betweenness centrality. \<open>All_Done\<close> is a helper
  of the enactor base, which is not part of the sources at hand; its result is a parameter.
\<close>

definition Backward_Iteration_Stop_Condition ::
  "bool \<Rightarrow> EnactorStats list \<Rightarrow> nat \<Rightarrow> bool" where
  "Backward_Iteration_Stop_Condition All_Done enactor_stats num_gpus =
     (if list_ex (\<lambda>gpu. retval (enactor_stats ! gpu) \<noteq> cudaSuccess) [0..<num_gpus * num_gpus]
      then True
      else if All_Done
      then (if list_ex (\<lambda>gpu. iteration (enactor_stats ! gpu) > 1) [0..<num_gpus * num_gpus]
            then False else True)
      else False)"


subsection \<open>Recording a failure and returning it\<close>

text \<open>
  \<open>CCThread\<close> and \<open>BCThread\<close> take \<open>enactor_stats = &enactor->enactor_stats[thread_num *
  num_gpus]\<close> and store the result of \<open>util::SetDevice\<close> in \<open>enactor_stats[0].retval\<close>;
  a non-success result leaves the thread at once (\<open>break\<close>).
\<close>

definition Thread_SetDevice ::
  "cudaError_t \<Rightarrow> nat \<Rightarrow> nat \<Rightarrow> EnactorStats list \<Rightarrow> EnactorStats list" where
  "Thread_SetDevice err thread_num num_gpus enactor_stats =
     enactor_stats[thread_num * num_gpus :=
       (enactor_stats ! (thread_num * num_gpus))\<lparr>retval := err\<rparr>]"

text \<open>
  The two kinds of check in \<open>FullQueue_Core\<close>. After a kernel launch:
  \<open>if (Enactor::DEBUG && (enactor_stats->retval = util::GRError(...))) return;\<close>
  and after the stream synchronisation:
  \<open>if (enactor_stats->retval = util::GRError(cudaStreamSynchronize(stream), ...)) return;\<close>.
  Each yields the new statistics and whether the function returns (no statement after a
  taken \<open>return\<close> runs, so nothing is launched again).
\<close>

definition launch_check :: "bool \<Rightarrow> cudaError_t \<Rightarrow> EnactorStats \<Rightarrow> EnactorStats \<times> bool" where
  "launch_check DEBUG err st =
     (if DEBUG then (st\<lparr>retval := err\<rparr>, err \<noteq> cudaSuccess) else (st, False))"

definition sync_check :: "cudaError_t \<Rightarrow> EnactorStats \<Rightarrow> EnactorStats \<times> bool" where
  "sync_check err st = (st\<lparr>retval := err\<rparr>, err \<noteq> cudaSuccess)"

text \<open>
  \<open>CCEnactor::EnactCC\<close> after every worker has signalled completion: the loop
  \<open>for (gpu = 0; gpu < num_gpus; gpu++) if (enactor_stats[gpu].retval != cudaSuccess)
  {retval = enactor_stats[gpu].retval; break;}\<close>. \<open>BCEnactor::EnactBC\<close> ends with the
  same loop.

  The two waiting loops on \<open>thread_slices[gpu].stats\<close> that come before it are not
  modelled: the definition is the value \<open>EnactCC\<close> returns once it is past them, that is
  when every worker has set \<open>stats\<close> to 1 and later to 4. A worker whose \<open>SetDevice\<close>
  fails leaves before it sets \<open>stats\<close> to 1; \<open>EnactCC\<close> then stays in the first waiting
  loop and returns nothing, so the definition says nothing about that case.
\<close>

definition EnactCC :: "EnactorStats list \<Rightarrow> nat \<Rightarrow> cudaError_t" where
  "EnactCC enactor_stats num_gpus =
     (case filter (\<lambda>gpu. retval (enactor_stats ! gpu) \<noteq> cudaSuccess) [0..<num_gpus] of
        [] \<Rightarrow> cudaSuccess
      | gpu # _ \<Rightarrow> retval (enactor_stats ! gpu))"

text \<open>
  The first non-success status over all per-device slots, which is what the caller is
  promised: device \<open>gpu\<close> owns the slots \<open>gpu * num_gpus + peer\<close>.
\<close>

definition first_device_failure :: "EnactorStats list \<Rightarrow> nat \<Rightarrow> cudaError_t" where
  "first_device_failure enactor_stats num_gpus =
     (case filter (\<lambda>k. retval (enactor_stats ! k) \<noteq> cudaSuccess) [0..<num_gpus * num_gpus] of
        [] \<Rightarrow> cudaSuccess
      | k # _ \<Rightarrow> retval (enactor_stats ! k))"

section \<open>Frontier capacity\<close>









section \<open>Device arrays\<close>

text \<open>
  A device array is a list; \<open>NULL\<close> is the empty list. Indexing outside the array is
  undefined behaviour in the source and \<open>None\<close> here, so that every read and write of a
  kernel is a branch of its model.
\<close>

definition array_read :: "'a list \<Rightarrow> int \<Rightarrow> 'a option" where
  "array_read xs i = (if 0 \<le> i \<and> i < int (length xs) then Some (xs ! nat i) else None)"

definition array_write :: "'a list \<Rightarrow> int \<Rightarrow> 'a \<Rightarrow> 'a list option" where
  "array_write xs i v = (if 0 \<le> i \<and> i < int (length xs) then Some (xs[nat i := v]) else None)"

section \<open>Connected components: merging incoming component ids\<close>

text \<open>
  \<open>Expand_Incoming_BothWay\<close>, the body of the loop \<open>while (x < num_elements)\<close> for one
  \<open>x\<close>: \<open>key = keys_in[x]\<close>, and if \<open>s_vertex_associate_in[0][x] <
  s_vertex_associate_org[0][key]\<close> the stored id is overwritten with the incoming one.
\<close>

definition Expand_Incoming_BothWay_element ::
  "VertexId list \<Rightarrow> VertexId list \<Rightarrow> VertexId list \<Rightarrow> nat \<Rightarrow> VertexId list option" where
  "Expand_Incoming_BothWay_element keys_in vertex_associate_in vertex_associate_org x =
     do {
       key \<leftarrow> array_read keys_in (int x);
       incoming \<leftarrow> array_read vertex_associate_in (int x);
       stored \<leftarrow> array_read vertex_associate_org (sint key);
       if sint incoming < sint stored
       then array_write vertex_associate_org (sint key) incoming
       else Some vertex_associate_org
     }"

text \<open>
  The kernel visits every \<open>x < num_elements\<close> (thread \<open>t\<close> of the grid takes \<open>x = t, t +
  STRIDE, ...\<close>). \<open>order\<close> is the sequence in which the elements are merged; the elements
  of one launch and of successive launches arrive in no fixed order.
\<close>

fun Expand_Incoming_BothWay ::
  "VertexId list \<Rightarrow> VertexId list \<Rightarrow> VertexId list \<Rightarrow> nat list \<Rightarrow> VertexId list option" where
  "Expand_Incoming_BothWay keys_in vertex_associate_in vertex_associate_org [] =
     Some vertex_associate_org"
| "Expand_Incoming_BothWay keys_in vertex_associate_in vertex_associate_org (x # order) =
     do {
       org' \<leftarrow> Expand_Incoming_BothWay_element keys_in vertex_associate_in vertex_associate_org x;
       Expand_Incoming_BothWay keys_in vertex_associate_in org' order
     }"

text \<open>The messages of a launch are well-formed: every key is a vertex of the receiving device.\<close>

definition incoming_wf :: "VertexId list \<Rightarrow> VertexId list \<Rightarrow> VertexId list \<Rightarrow> nat \<Rightarrow> bool" where
  "incoming_wf keys_in vertex_associate_in vertex_associate_org num_elements =
     (num_elements \<le> length keys_in \<and> num_elements \<le> length vertex_associate_in
      \<and> list_all (\<lambda>x. 0 \<le> sint (keys_in ! x)
                       \<and> sint (keys_in ! x) < int (length vertex_associate_org))
           [0..<num_elements])"

text \<open>The incoming ids addressed to vertex \<open>k\<close>, read as signed integers.\<close>

definition incoming_for :: "VertexId list \<Rightarrow> VertexId list \<Rightarrow> nat \<Rightarrow> nat \<Rightarrow> int set" where
  "incoming_for keys_in vertex_associate_in num_elements k =
     (\<lambda>x. sint (vertex_associate_in ! x)) ` {x. x < num_elements \<and> sint (keys_in ! x) = int k}"

section \<open>Advance: neighbor-list lengths of a frontier\<close>

text \<open>
  \<open>Dispatch::GetNeighborListLength\<close>. The parameters \<open>d_column_indices\<close> and
  \<open>ADVANCE_TYPE\<close> are not used by the body and are left out. \<open>d_vertex_id + 1\<close> is the
  wrapping 32-bit sum; a read of \<open>d_row_offsets\<close> outside the array yields \<open>None\<close>.
\<close>

definition GetNeighborListLength :: "SizeT list \<Rightarrow> VertexId \<Rightarrow> SizeT \<Rightarrow> SizeT \<Rightarrow> SizeT option" where
  "GetNeighborListLength d_row_offsets d_vertex_id max_vertex max_edge =
     do {
       first \<leftarrow> (if sint max_vertex \<le> sint d_vertex_id then Some max_edge
                 else array_read d_row_offsets (sint d_vertex_id));
       second \<leftarrow> (if sint max_vertex \<le> sint (d_vertex_id + 1) then Some max_edge
                  else array_read d_row_offsets (sint (d_vertex_id + 1)));
       Some (if sint first < sint second then second - first else 0)
     }"

text \<open>
  \<open>Dispatch::GetEdgeCounts\<close> as run by the thread with global index \<open>my_id = bid *
  blockDim.x + tid\<close>. The result is the array \<open>d_scanned_edges\<close> after the thread, or
  \<open>None\<close> when the thread indexes outside an array.
\<close>

definition GetEdgeCounts ::
  "SizeT list \<Rightarrow> VertexId list \<Rightarrow> SizeT list \<Rightarrow> VertexId list \<Rightarrow> VertexId list \<Rightarrow>
   SizeT list \<Rightarrow> SizeT \<Rightarrow> SizeT \<Rightarrow> SizeT \<Rightarrow> advance_TYPE \<Rightarrow> bool \<Rightarrow> bool \<Rightarrow> 32 word \<Rightarrow>
   SizeT list option" where
  "GetEdgeCounts d_row_offsets d_column_indices d_column_offsets d_row_indices d_queue
     d_scanned_edges num_elements max_vertex max_edge ADVANCE_TYPE in_inv out_inv my_id =
     (if sint num_elements < sint my_id \<or> sint max_edge \<le> sint my_id then Some d_scanned_edges
      else do {
        column_index \<leftarrow> (if in_inv then array_read d_row_indices (sint my_id)
                         else array_read d_column_indices (sint my_id));
        v_id \<leftarrow> (if ADVANCE_TYPE = V2E \<or> ADVANCE_TYPE = V2V
                 then (if sint num_elements \<le> sint my_id then Some (- 1)
                       else array_read d_queue (sint my_id))
                 else (if sint num_elements \<le> sint my_id then Some (- 1)
                       else Some column_index));
        if sint v_id < 0 \<or> sint max_vertex < sint v_id
        then array_write d_scanned_edges (sint my_id) 0
        else do {
          ncount \<leftarrow> (if \<not> out_inv
                     then GetNeighborListLength d_row_offsets v_id max_vertex max_edge
                     else GetNeighborListLength d_column_offsets v_id max_vertex max_edge);
          array_write d_scanned_edges (sint my_id) (if my_id = num_elements then 0 else ncount)
        }
      })"

text \<open>
  One launch of the kernel: the threads with the global indices in \<open>ids\<close> run one after
  the other. Each thread writes at most the cell of its own index and reads no cell of
  \<open>d_scanned_edges\<close>, so the order of the threads does not matter.
\<close>

fun GetEdgeCounts_threads ::
  "SizeT list \<Rightarrow> VertexId list \<Rightarrow> SizeT list \<Rightarrow> VertexId list \<Rightarrow> VertexId list \<Rightarrow>
   SizeT \<Rightarrow> SizeT \<Rightarrow> SizeT \<Rightarrow> advance_TYPE \<Rightarrow> bool \<Rightarrow> bool \<Rightarrow> nat list \<Rightarrow> SizeT list \<Rightarrow>
   SizeT list option" where
  "GetEdgeCounts_threads d_row_offsets d_column_indices d_column_offsets d_row_indices d_queue
     num_elements max_vertex max_edge ADVANCE_TYPE in_inv out_inv [] d_scanned_edges =
     Some d_scanned_edges"
| "GetEdgeCounts_threads d_row_offsets d_column_indices d_column_offsets d_row_indices d_queue
     num_elements max_vertex max_edge ADVANCE_TYPE in_inv out_inv (t # ids) d_scanned_edges =
     do {
       s \<leftarrow> GetEdgeCounts d_row_offsets d_column_indices d_column_offsets d_row_indices d_queue
              d_scanned_edges num_elements max_vertex max_edge ADVANCE_TYPE in_inv out_inv
              (of_nat t);
       GetEdgeCounts_threads d_row_offsets d_column_indices d_column_offsets d_row_indices
         d_queue num_elements max_vertex max_edge ADVANCE_TYPE in_inv out_inv ids s
     }"

definition GetEdgeCounts_kernel ::
  "SizeT list \<Rightarrow> VertexId list \<Rightarrow> SizeT list \<Rightarrow> VertexId list \<Rightarrow> VertexId list \<Rightarrow>
   SizeT list \<Rightarrow> SizeT \<Rightarrow> SizeT \<Rightarrow> SizeT \<Rightarrow> advance_TYPE \<Rightarrow> bool \<Rightarrow> bool \<Rightarrow> nat \<Rightarrow>
   SizeT list option" where
  "GetEdgeCounts_kernel d_row_offsets d_column_indices d_column_offsets d_row_indices d_queue
     d_scanned_edges num_elements max_vertex max_edge ADVANCE_TYPE in_inv out_inv num_threads =
     GetEdgeCounts_threads d_row_offsets d_column_indices d_column_offsets d_row_indices d_queue
       num_elements max_vertex max_edge ADVANCE_TYPE in_inv out_inv [0..<num_threads]
       d_scanned_edges"

text \<open>
  The CSR invariant of the specification: \<open>row_offsets\<close> has \<open>nodes + 1\<close> entries, is
  non-decreasing, and \<open>row_offsets[nodes] == edges\<close>; \<open>column_indices\<close> has \<open>edges\<close>
  entries.
\<close>

definition csr_wf :: "SizeT list \<Rightarrow> VertexId list \<Rightarrow> SizeT \<Rightarrow> SizeT \<Rightarrow> bool" where
  "csr_wf row_offsets column_indices nodes edges =
     (0 \<le> sint nodes \<and> 0 \<le> sint edges
      \<and> length row_offsets = nat (sint nodes) + 1
      \<and> length column_indices = nat (sint edges)
      \<and> sorted (map sint row_offsets)
      \<and> row_offsets ! nat (sint nodes) = edges)"

text \<open>A vertex frontier: \<open>num_elements\<close> entries, each a vertex of the graph.\<close>

definition frontier_wf :: "VertexId list \<Rightarrow> SizeT \<Rightarrow> SizeT \<Rightarrow> bool" where
  "frontier_wf d_queue num_elements nodes =
     (0 \<le> sint num_elements \<and> nat (sint num_elements) \<le> length d_queue
      \<and> list_all (\<lambda>i. 0 \<le> sint (d_queue ! i) \<and> sint (d_queue ! i) < sint nodes)
           [0..<nat (sint num_elements)])"

section \<open>Advance: the load-balanced kernels\<close>

text \<open>
  The two kernels keep their indices and counts in \<open>int\<close> variables (\<open>SizeT\<close> and
  \<open>VertexId\<close> are \<open>int\<close>) and their shared arrays in \<open>unsigned int\<close>. The model computes with
  integers and converts at the arrays (\<open>sint\<close> when an element is read into an \<open>int\<close>,
  \<open>uint\<close> when an \<open>unsigned int\<close> is used as it is, \<open>word_of_int\<close> when a variable is stored);
  where the source computes or compares in \<open>unsigned int\<close> the model does so on words,
  whose order is the unsigned one. A \<open>NULL\<close> pointer argument is \<open>None\<close>.
\<close>

definition read_int :: "32 word list \<Rightarrow> int \<Rightarrow> int option" where
  "read_int xs i = map_option sint (array_read xs i)"

definition read_uint :: "32 word list \<Rightarrow> int \<Rightarrow> int option" where
  "read_uint xs i = map_option uint (array_read xs i)"

text \<open>
  Modelled from the spec: \<open>BinarySearch<THREADS>(i, s_edges)\<close> is declared in the
  kernel's \<open>cta.cuh\<close>, which is not part of the sources at hand. By the specification it
  maps a flat edge index back to the frontier element that owns it: the first of the
  \<open>THREADS\<close> entries of the scanned array that exceeds \<open>i\<close> (\<open>THREADS\<close> if there is none).
\<close>

definition BinarySearch :: "nat \<Rightarrow> int \<Rightarrow> 32 word list \<Rightarrow> int" where
  "BinarySearch NT i queue = int (length (takeWhile (\<lambda>q. sint q \<le> i) (take NT queue)))"

text \<open>
  The body both kernels run for one edge, in each of their \<open>MARK_PREDECESSORS\<close> branches:
  \<open>if (Functor::CondEdge(s_id, u, problem, lookup, e_id_in))\<close>, then \<open>ApplyEdge\<close> and the
  stores to \<open>d_out\<close> and \<open>d_reduce_frontier\<close> at \<open>out_index\<close>, else the stores of \<open>-1\<close> and
  of the operator's fill value. The branches differ in the first and last functor argument
  (passed in by the kernel) and in the \<open>switch (R_OP)\<close> (\<open>reject_value\<close>). The functor may
  change the problem data; the state is the problem data, \<open>d_out\<close> and \<open>d_reduce_frontier\<close>.
\<close>

definition advance_edge ::
  "(int \<Rightarrow> int \<Rightarrow> 'p \<Rightarrow> int \<Rightarrow> int \<Rightarrow> bool \<times> 'p) \<Rightarrow> (int \<Rightarrow> int \<Rightarrow> 'p \<Rightarrow> int \<Rightarrow> int \<Rightarrow> 'p) \<Rightarrow>
   advance_path \<Rightarrow> bool \<Rightarrow> advance_TYPE \<Rightarrow> REDUCE_TYPE \<Rightarrow> REDUCE_OP \<Rightarrow> Value list option \<Rightarrow>
   int \<Rightarrow> int \<Rightarrow> int \<Rightarrow> int \<Rightarrow> int \<Rightarrow>
   'p \<times> VertexId list option \<times> Value list \<Rightarrow> ('p \<times> VertexId list option \<times> Value list) option"
  where
  "advance_edge CondEdge ApplyEdge path MARK_PREDECESSORS ADVANCE_TYPE R_TYPE R_OP
     d_value_to_reduce s_id u lookup e_id_in out_index st =
     (case st of (problem, d_out, d_reduce_frontier) \<Rightarrow>
      (case CondEdge s_id u problem lookup e_id_in of (cond, problem1) \<Rightarrow>
       if cond then
         do {
           let problem2 = ApplyEdge s_id u problem1 lookup e_id_in;
           out' \<leftarrow> (case d_out of
                      None \<Rightarrow> Some None
                    | Some out \<Rightarrow>
                        if ADVANCE_TYPE = V2V
                        then map_option Some (array_write out out_index (word_of_int u))
                        else if ADVANCE_TYPE = V2E \<or> ADVANCE_TYPE = E2E
                        then map_option Some (array_write out out_index (word_of_int lookup))
                        else Some (Some out));
           rf' \<leftarrow> (case d_value_to_reduce of
                     None \<Rightarrow> Some d_reduce_frontier
                   | Some vals \<Rightarrow>
                       if R_TYPE = VERTEX
                       then do { x \<leftarrow> array_read vals u;
                                 array_write d_reduce_frontier out_index x }
                       else if R_TYPE = EDGE
                       then do { x \<leftarrow> array_read vals lookup;
                                 array_write d_reduce_frontier out_index x }
                       else Some d_reduce_frontier);
           Some (problem2, out', rf')
         }
       else
         do {
           out' \<leftarrow> (case d_out of
                      None \<Rightarrow> Some None
                    | Some out \<Rightarrow> map_option Some (array_write out out_index (- 1)));
           rf' \<leftarrow> (case d_value_to_reduce of
                     None \<Rightarrow> Some d_reduce_frontier
                   | Some vals \<Rightarrow>
                       array_write d_reduce_frontier out_index
                         (reject_value path MARK_PREDECESSORS R_OP));
           Some (problem1, out', rf')
         }))"

subsection \<open>\<open>RelaxPartitionedEdges2\<close>\<close>

text \<open>
  The \<open>for\<close> loop of one thread in one round of the block's \<open>while\<close> loop:
  \<open>for (i = tid + e_offset; i < e_last + e_offset; i += THREADS)\<close>. The thread's variables
  \<open>v_index\<close>, \<open>v\<close>, \<open>e_id\<close>, \<open>end_last\<close>, \<open>internal_offset\<close> and \<open>lookup_offset\<close> are carried
  from one pass to the next. \<open>bound\<close> is \<open>e_last + e_offset\<close>, \<open>out_base\<close> is
  \<open>out_offset + edges_processed\<close>. \<open>NT\<close> is \<open>KernelPolicy::THREADS\<close>, a positive constant
  of the source; the test \<open>0 < NT\<close> is there for the recursion to be well-founded.
\<close>

function RelaxPartitionedEdges2_for ::
  "nat \<Rightarrow> (int \<Rightarrow> int \<Rightarrow> 'p \<Rightarrow> int \<Rightarrow> int \<Rightarrow> bool \<times> 'p) \<Rightarrow> (int \<Rightarrow> int \<Rightarrow> 'p \<Rightarrow> int \<Rightarrow> int \<Rightarrow> 'p) \<Rightarrow>
   bool \<Rightarrow> int \<Rightarrow> SizeT list \<Rightarrow> VertexId list \<Rightarrow> VertexId list \<Rightarrow> int \<Rightarrow>
   advance_TYPE \<Rightarrow> bool \<Rightarrow> REDUCE_TYPE \<Rightarrow> REDUCE_OP \<Rightarrow> Value list option \<Rightarrow>
   32 word list \<Rightarrow> 32 word list \<Rightarrow> int \<Rightarrow> int \<Rightarrow> int \<Rightarrow>
   int \<Rightarrow> int \<times> int \<times> int \<times> int \<times> int \<times> int \<Rightarrow>
   'p \<times> VertexId list option \<times> Value list \<Rightarrow> ('p \<times> VertexId list option \<times> Value list) option"
  where
  "RelaxPartitionedEdges2_for NT CondEdge ApplyEdge MARK_PREDECESSORS label d_row_offsets
     d_column_indices d_inverse_column_indices max_edges ADVANCE_TYPE inverse_graph R_TYPE R_OP
     d_value_to_reduce s_edges s_vertices bound out_base e_offset
     i (v_index, v, e_id, end_last, internal_offset, lookup_offset) st =
     (if i < bound \<and> 0 < NT then
        do {
          (v_index', v', e_id', end_last', internal_offset', lookup_offset') \<leftarrow>
            (if i \<ge> end_last then
               do {
                 let vi = BinarySearch NT i s_edges;
                 (v1, e1) \<leftarrow>
                   (if ADVANCE_TYPE = V2V \<or> ADVANCE_TYPE = V2E
                    then do { x \<leftarrow> read_int s_vertices vi; Some (x, 0) }
                    else do {
                      sv \<leftarrow> array_read s_vertices vi;
                      x \<leftarrow> (if inverse_graph then read_int d_inverse_column_indices (uint sv)
                            else read_int d_column_indices (uint sv));
                      Some (x, sint sv)
                    });
                 el \<leftarrow> (if vi < int NT then read_int s_edges vi else Some max_edges);
                 io \<leftarrow> (if vi > 0 then read_int s_edges (vi - 1) else Some 0);
                 lo \<leftarrow> read_int d_row_offsets v1;
                 Some (vi, v1, e1, el, io, lo)
               }
             else Some (v_index, v, e_id, end_last, internal_offset, lookup_offset));
          let e = i - internal_offset';
          let lookup = lookup_offset' + e;
          u \<leftarrow> read_int d_column_indices lookup;
          let out_index = out_base + (i - e_offset);
          st' \<leftarrow> advance_edge CondEdge ApplyEdge Partitioned MARK_PREDECESSORS ADVANCE_TYPE R_TYPE
                   R_OP d_value_to_reduce (if MARK_PREDECESSORS then v' else label) u lookup e_id'
                   out_index st;
          RelaxPartitionedEdges2_for NT CondEdge ApplyEdge MARK_PREDECESSORS label d_row_offsets
            d_column_indices d_inverse_column_indices max_edges ADVANCE_TYPE inverse_graph R_TYPE
            R_OP d_value_to_reduce s_edges s_vertices bound out_base e_offset
            (i + int NT) (v_index', v', e_id', end_last', internal_offset', lookup_offset') st'
        }
      else Some st)"
  by pat_completeness auto
termination
  by (relation "measure (\<lambda>(NT, CondEdge, ApplyEdge, MARK_PREDECESSORS, label, d_row_offsets,
        d_column_indices, d_inverse_column_indices, max_edges, ADVANCE_TYPE, inverse_graph,
        R_TYPE, R_OP, d_value_to_reduce, s_edges, s_vertices, bound, out_base, e_offset, i,
        regs, st). nat (bound - i))") auto

text \<open>
  What one thread does in one round: the first search, with the reads the source makes before
  the loop whether or not the thread has an edge to process, then the loop. A read outside
  an array (the shared arrays have \<open>THREADS\<close> cells) is a fault, \<open>None\<close>.
\<close>

definition RelaxPartitionedEdges2_thread ::
  "nat \<Rightarrow> (int \<Rightarrow> int \<Rightarrow> 'p \<Rightarrow> int \<Rightarrow> int \<Rightarrow> bool \<times> 'p) \<Rightarrow> (int \<Rightarrow> int \<Rightarrow> 'p \<Rightarrow> int \<Rightarrow> int \<Rightarrow> 'p) \<Rightarrow>
   bool \<Rightarrow> int \<Rightarrow> SizeT list \<Rightarrow> VertexId list \<Rightarrow> VertexId list \<Rightarrow> int \<Rightarrow>
   advance_TYPE \<Rightarrow> bool \<Rightarrow> REDUCE_TYPE \<Rightarrow> REDUCE_OP \<Rightarrow> Value list option \<Rightarrow>
   32 word list \<Rightarrow> 32 word list \<Rightarrow> 32 word list \<Rightarrow> int \<Rightarrow> int \<Rightarrow> int \<Rightarrow> int \<Rightarrow>
   'p \<times> VertexId list option \<times> Value list \<Rightarrow> nat \<Rightarrow> ('p \<times> VertexId list option \<times> Value list) option"
  where
  "RelaxPartitionedEdges2_thread NT CondEdge ApplyEdge MARK_PREDECESSORS label d_row_offsets
     d_column_indices d_inverse_column_indices max_edges ADVANCE_TYPE inverse_graph R_TYPE R_OP
     d_value_to_reduce s_edges s_vertices s_edge_ids my_end_partition e_last out_base e_offset
     st tid =
     do {
       let v_index = BinarySearch NT (int tid + e_offset) s_edges;
       v \<leftarrow> read_int s_vertices v_index;
       e_id \<leftarrow> read_int s_edge_ids v_index;
       end_last \<leftarrow> (if v_index < my_end_partition then read_int s_edges v_index
                    else Some max_edges);
       internal_offset \<leftarrow> (if v_index > 0 then read_int s_edges (v_index - 1) else Some 0);
       lookup_offset \<leftarrow> read_int d_row_offsets v;
       RelaxPartitionedEdges2_for NT CondEdge ApplyEdge MARK_PREDECESSORS label d_row_offsets
         d_column_indices d_inverse_column_indices max_edges ADVANCE_TYPE inverse_graph R_TYPE
         R_OP d_value_to_reduce s_edges s_vertices (e_last + e_offset) out_base e_offset
         (int tid + e_offset) (v_index, v, e_id, end_last, internal_offset, lookup_offset) st
     }"

text \<open>
  The threads of a block run between the same two barriers; their stores go to different
  cells of the output. The model runs them one after the other, thread \<open>0\<close> first.
\<close>

fun run_threads :: "('s \<Rightarrow> nat \<Rightarrow> 's option) \<Rightarrow> nat list \<Rightarrow> 's \<Rightarrow> 's option" where
  "run_threads f [] st = Some st"
| "run_threads f (tid # tids) st = (case f st tid of None \<Rightarrow> None | Some st' \<Rightarrow> run_threads f tids st')"

text \<open>
  The shared arrays of one round, as the \<open>THREADS\<close> threads fill them
  (\<open>s_edges[tid]\<close>, \<open>s_vertices[tid]\<close>, \<open>s_edge_ids[tid]\<close>).
\<close>

definition RelaxPartitionedEdges2_s_edges ::
  "nat \<Rightarrow> SizeT list \<Rightarrow> int \<Rightarrow> int \<Rightarrow> int \<Rightarrow> int \<Rightarrow> 32 word list option" where
  "RelaxPartitionedEdges2_s_edges NT d_scanned_edges max_edges my_start_partition
     my_end_partition pre_offset =
     those (map (\<lambda>tid. if my_start_partition + int tid < my_end_partition
                        then map_option (\<lambda>x. x - word_of_int pre_offset)
                               (array_read d_scanned_edges (my_start_partition + int tid))
                        else Some (word_of_int max_edges)) [0..<NT])"

definition RelaxPartitionedEdges2_s_vertices ::
  "nat \<Rightarrow> advance_TYPE \<Rightarrow> bool \<Rightarrow> VertexId list \<Rightarrow> VertexId list \<Rightarrow> VertexId list \<Rightarrow>
   int \<Rightarrow> int \<Rightarrow> 32 word list option" where
  "RelaxPartitionedEdges2_s_vertices NT ADVANCE_TYPE inverse_graph d_column_indices
     d_inverse_column_indices d_queue my_start_partition my_end_partition =
     those (map (\<lambda>tid. if my_start_partition + int tid < my_end_partition
                        then (if ADVANCE_TYPE = V2V \<or> ADVANCE_TYPE = V2E
                              then array_read d_queue (my_start_partition + int tid)
                              else do {
                                q \<leftarrow> read_int d_queue (my_start_partition + int tid);
                                if inverse_graph then array_read d_inverse_column_indices q
                                else array_read d_column_indices q
                              })
                        else Some (- 1)) [0..<NT])"

definition RelaxPartitionedEdges2_s_edge_ids ::
  "nat \<Rightarrow> advance_TYPE \<Rightarrow> VertexId list \<Rightarrow> int \<Rightarrow> int \<Rightarrow> 32 word list option" where
  "RelaxPartitionedEdges2_s_edge_ids NT ADVANCE_TYPE d_queue my_start_partition
     my_end_partition =
     those (map (\<lambda>tid. if ADVANCE_TYPE = V2V \<or> ADVANCE_TYPE = V2E then Some 0
                        else if my_start_partition + int tid < my_end_partition
                        then array_read d_queue (my_start_partition + int tid)
                        else Some (- 1)) [0..<NT])"

text \<open>
  The block's loop \<open>while (edges_processed < my_work_size && my_start_partition <
  my_end_partition)\<close>: each round loads the next \<open>THREADS\<close> frontier elements, lets every
  thread run its \<open>for\<close> loop, and advances.
\<close>

function RelaxPartitionedEdges2_while ::
  "nat \<Rightarrow> (int \<Rightarrow> int \<Rightarrow> 'p \<Rightarrow> int \<Rightarrow> int \<Rightarrow> bool \<times> 'p) \<Rightarrow> (int \<Rightarrow> int \<Rightarrow> 'p \<Rightarrow> int \<Rightarrow> int \<Rightarrow> 'p) \<Rightarrow>
   bool \<Rightarrow> int \<Rightarrow> SizeT list \<Rightarrow> VertexId list \<Rightarrow> VertexId list \<Rightarrow> SizeT list \<Rightarrow> VertexId list \<Rightarrow>
   int \<Rightarrow> advance_TYPE \<Rightarrow> bool \<Rightarrow> REDUCE_TYPE \<Rightarrow> REDUCE_OP \<Rightarrow> Value list option \<Rightarrow>
   int \<Rightarrow> int \<Rightarrow> int \<Rightarrow> int \<Rightarrow> int \<Rightarrow> int \<Rightarrow>
   'p \<times> VertexId list option \<times> Value list \<Rightarrow> ('p \<times> VertexId list option \<times> Value list) option"
  where
  "RelaxPartitionedEdges2_while NT CondEdge ApplyEdge MARK_PREDECESSORS label d_row_offsets
     d_column_indices d_inverse_column_indices d_scanned_edges d_queue max_edges ADVANCE_TYPE
     inverse_graph R_TYPE R_OP d_value_to_reduce my_work_size my_end_partition out_offset
     edges_processed my_start_partition e_offset st =
     (if edges_processed < my_work_size \<and> my_start_partition < my_end_partition \<and> 0 < NT then
        do {
          pre_offset \<leftarrow> (if my_start_partition > 0
                         then read_int d_scanned_edges (my_start_partition - 1) else Some 0);
          s_edges \<leftarrow> RelaxPartitionedEdges2_s_edges NT d_scanned_edges max_edges
                       my_start_partition my_end_partition pre_offset;
          s_vertices \<leftarrow> RelaxPartitionedEdges2_s_vertices NT ADVANCE_TYPE inverse_graph
                          d_column_indices d_inverse_column_indices d_queue my_start_partition
                          my_end_partition;
          s_edge_ids \<leftarrow> RelaxPartitionedEdges2_s_edge_ids NT ADVANCE_TYPE d_queue
                          my_start_partition my_end_partition;
          let last = (if my_start_partition + int NT \<ge> my_end_partition
                      then my_end_partition - my_start_partition - 1 else int NT - 1);
          s_last \<leftarrow> array_read s_edges last;
          let e_last = sint (min (s_last - word_of_int e_offset)
                               (word_of_int (my_work_size - edges_processed)));
          st' \<leftarrow> run_threads
                   (RelaxPartitionedEdges2_thread NT CondEdge ApplyEdge MARK_PREDECESSORS label
                      d_row_offsets d_column_indices d_inverse_column_indices max_edges
                      ADVANCE_TYPE inverse_graph R_TYPE R_OP d_value_to_reduce s_edges s_vertices
                      s_edge_ids my_end_partition e_last (out_offset + edges_processed) e_offset)
                   [0..<NT] st;
          RelaxPartitionedEdges2_while NT CondEdge ApplyEdge MARK_PREDECESSORS label
            d_row_offsets d_column_indices d_inverse_column_indices d_scanned_edges d_queue
            max_edges ADVANCE_TYPE inverse_graph R_TYPE R_OP d_value_to_reduce my_work_size
            my_end_partition out_offset (edges_processed + e_last) (my_start_partition + int NT)
            0 st'
        }
      else Some st)"
  by pat_completeness auto
termination
  by (relation "measure (\<lambda>(NT, CondEdge, ApplyEdge, MARK_PREDECESSORS, label, d_row_offsets,
        d_column_indices, d_inverse_column_indices, d_scanned_edges, d_queue, max_edges,
        ADVANCE_TYPE, inverse_graph, R_TYPE, R_OP, d_value_to_reduce, my_work_size,
        my_end_partition, out_offset, edges_processed, my_start_partition, e_offset, st).
        nat (my_end_partition - my_start_partition))") auto

text \<open>
  One block of the kernel, from \<open>int tid = threadIdx.x\<close> on. The prologue stores the queue
  lengths in \<open>work_progress\<close> and, when \<open>queue_reset\<close> is set, leaves \<open>input_queue_len\<close> as
  passed; the model is of a launch with \<open>queue_reset\<close> set. \<open>output_queue_len\<close> is the value
  at \<open>output_queue_len[0]\<close>.
\<close>

definition RelaxPartitionedEdges2 ::
  "nat \<Rightarrow> (int \<Rightarrow> int \<Rightarrow> 'p \<Rightarrow> int \<Rightarrow> int \<Rightarrow> bool \<times> 'p) \<Rightarrow> (int \<Rightarrow> int \<Rightarrow> 'p \<Rightarrow> int \<Rightarrow> int \<Rightarrow> 'p) \<Rightarrow>
   bool \<Rightarrow> int \<Rightarrow> SizeT list \<Rightarrow> VertexId list \<Rightarrow> VertexId list \<Rightarrow> SizeT list \<Rightarrow> 32 word list \<Rightarrow>
   VertexId list \<Rightarrow> int \<Rightarrow> int \<Rightarrow> int \<Rightarrow> int \<Rightarrow> advance_TYPE \<Rightarrow> bool \<Rightarrow> REDUCE_TYPE \<Rightarrow>
   REDUCE_OP \<Rightarrow> Value list option \<Rightarrow>
   'p \<times> VertexId list option \<times> Value list \<Rightarrow> nat \<Rightarrow> ('p \<times> VertexId list option \<times> Value list) option"
  where
  "RelaxPartitionedEdges2 NT CondEdge ApplyEdge MARK_PREDECESSORS label d_row_offsets
     d_column_indices d_inverse_column_indices d_scanned_edges partition_starts d_queue
     input_queue_len output_queue_len partition_size max_edges ADVANCE_TYPE inverse_graph
     R_TYPE R_OP d_value_to_reduce st bid =
     (let my_thread_start = int bid * partition_size;
          my_thread_end = (if (int bid + 1) * partition_size < output_queue_len
                           then (int bid + 1) * partition_size else output_queue_len)
      in if my_thread_start \<ge> output_queue_len then Some st
         else do {
           my_start_partition \<leftarrow> read_int partition_starts (int bid);
           next_start \<leftarrow> array_read partition_starts (int bid + 1);
           let my_end_partition =
                 (if next_start > word_of_int input_queue_len then sint next_start
                  else input_queue_len);
           let my_work_size = my_thread_end - my_thread_start;
           let out_offset = int bid * partition_size;
           pre_offset \<leftarrow> (if my_start_partition > 0
                          then read_int d_scanned_edges (my_start_partition - 1) else Some 0);
           let e_offset = my_thread_start - pre_offset;
           RelaxPartitionedEdges2_while NT CondEdge ApplyEdge MARK_PREDECESSORS label
             d_row_offsets d_column_indices d_inverse_column_indices d_scanned_edges d_queue
             max_edges ADVANCE_TYPE inverse_graph R_TYPE R_OP d_value_to_reduce my_work_size
             my_end_partition out_offset 0 my_start_partition e_offset st
         })"

text \<open>The grid: blocks \<open>0 .. num_blocks - 1\<close>, which share nothing but the device arrays.\<close>

definition RelaxPartitionedEdges2_kernel ::
  "nat \<Rightarrow> nat \<Rightarrow> (int \<Rightarrow> int \<Rightarrow> 'p \<Rightarrow> int \<Rightarrow> int \<Rightarrow> bool \<times> 'p) \<Rightarrow> (int \<Rightarrow> int \<Rightarrow> 'p \<Rightarrow> int \<Rightarrow> int \<Rightarrow> 'p) \<Rightarrow>
   bool \<Rightarrow> int \<Rightarrow> SizeT list \<Rightarrow> VertexId list \<Rightarrow> VertexId list \<Rightarrow> SizeT list \<Rightarrow> 32 word list \<Rightarrow>
   VertexId list \<Rightarrow> int \<Rightarrow> int \<Rightarrow> int \<Rightarrow> int \<Rightarrow> advance_TYPE \<Rightarrow> bool \<Rightarrow> REDUCE_TYPE \<Rightarrow>
   REDUCE_OP \<Rightarrow> Value list option \<Rightarrow>
   'p \<times> VertexId list option \<times> Value list \<Rightarrow> ('p \<times> VertexId list option \<times> Value list) option"
  where
  "RelaxPartitionedEdges2_kernel num_blocks NT CondEdge ApplyEdge MARK_PREDECESSORS label
     d_row_offsets d_column_indices d_inverse_column_indices d_scanned_edges partition_starts
     d_queue input_queue_len output_queue_len partition_size max_edges ADVANCE_TYPE
     inverse_graph R_TYPE R_OP d_value_to_reduce st =
     run_threads
       (RelaxPartitionedEdges2 NT CondEdge ApplyEdge MARK_PREDECESSORS label d_row_offsets
          d_column_indices d_inverse_column_indices d_scanned_edges partition_starts d_queue
          input_queue_len output_queue_len partition_size max_edges ADVANCE_TYPE inverse_graph
          R_TYPE R_OP d_value_to_reduce)
       [0..<num_blocks] st"

subsection \<open>\<open>RelaxLightEdges\<close>\<close>

text \<open>
  The \<open>for\<close> loop of one thread: \<open>for (int i = tid; i < size; i += THREADS)\<close>, with
  \<open>size\<close> an \<open>unsigned int\<close>. With \<open>MARK_PREDECESSORS\<close> the functors get \<open>v\<close> and
  \<open>v_index\<close> as first and last argument, without it \<open>label\<close> and \<open>e_id\<close>.
\<close>

function RelaxLightEdges_for ::
  "nat \<Rightarrow> (int \<Rightarrow> int \<Rightarrow> 'p \<Rightarrow> int \<Rightarrow> int \<Rightarrow> bool \<times> 'p) \<Rightarrow> (int \<Rightarrow> int \<Rightarrow> 'p \<Rightarrow> int \<Rightarrow> int \<Rightarrow> 'p) \<Rightarrow>
   bool \<Rightarrow> int \<Rightarrow> SizeT list \<Rightarrow> SizeT list \<Rightarrow> VertexId list \<Rightarrow> VertexId list \<Rightarrow> int \<Rightarrow>
   advance_TYPE \<Rightarrow> bool \<Rightarrow> REDUCE_TYPE \<Rightarrow> REDUCE_OP \<Rightarrow> Value list option \<Rightarrow>
   32 word list \<Rightarrow> 32 word list \<Rightarrow> 32 word list \<Rightarrow> int \<Rightarrow> int \<Rightarrow>
   int \<Rightarrow> int \<times> int \<times> int \<times> int \<Rightarrow>
   'p \<times> VertexId list option \<times> Value list \<Rightarrow> ('p \<times> VertexId list option \<times> Value list) option"
  where
  "RelaxLightEdges_for NT CondEdge ApplyEdge MARK_PREDECESSORS label d_row_offsets
     d_inverse_row_offsets d_column_indices d_inverse_column_indices max_vertices ADVANCE_TYPE
     output_inverse_graph R_TYPE R_OP d_value_to_reduce s_edges s_vertices s_edge_ids
     size_edges offset i (v_index, v, e_id, end_last) st =
     (if i < size_edges \<and> 0 < NT then
        do {
          (v_index', v', e_id', end_last') \<leftarrow>
            (if i \<ge> end_last then
               do {
                 let vi = BinarySearch NT i s_edges;
                 v1 \<leftarrow> read_int s_vertices vi;
                 e1 \<leftarrow> read_int s_edge_ids vi;
                 el \<leftarrow> (if vi < int NT then read_int s_edges vi else Some max_vertices);
                 Some (vi, v1, e1, el)
               }
             else Some (v_index, v, e_id, end_last));
          internal_offset \<leftarrow> (if v_index' > 0 then read_int s_edges (v_index' - 1) else Some 0);
          let e = i - internal_offset;
          (lookup, u) \<leftarrow>
            (if output_inverse_graph
             then do { r \<leftarrow> read_int d_inverse_row_offsets v';
                       x \<leftarrow> read_int d_inverse_column_indices (r + e);
                       Some (r + e, x) }
             else do { r \<leftarrow> read_int d_row_offsets v';
                       x \<leftarrow> read_int d_column_indices (r + e);
                       Some (r + e, x) });
          st' \<leftarrow> advance_edge CondEdge ApplyEdge Light MARK_PREDECESSORS ADVANCE_TYPE R_TYPE R_OP
                   d_value_to_reduce (if MARK_PREDECESSORS then v' else label) u lookup
                   (if MARK_PREDECESSORS then v_index' else e_id') (offset + i) st;
          RelaxLightEdges_for NT CondEdge ApplyEdge MARK_PREDECESSORS label d_row_offsets
            d_inverse_row_offsets d_column_indices d_inverse_column_indices max_vertices
            ADVANCE_TYPE output_inverse_graph R_TYPE R_OP d_value_to_reduce s_edges s_vertices
            s_edge_ids size_edges offset (i + int NT) (v_index', v', e_id', end_last') st'
        }
      else Some st)"
  by pat_completeness auto
termination
  by (relation "measure (\<lambda>(NT, CondEdge, ApplyEdge, MARK_PREDECESSORS, label, d_row_offsets,
        d_inverse_row_offsets, d_column_indices, d_inverse_column_indices, max_vertices,
        ADVANCE_TYPE, output_inverse_graph, R_TYPE, R_OP, d_value_to_reduce, s_edges,
        s_vertices, s_edge_ids, size_edges, offset, i, regs, st). nat (size_edges - i))") auto

definition RelaxLightEdges_thread ::
  "nat \<Rightarrow> (int \<Rightarrow> int \<Rightarrow> 'p \<Rightarrow> int \<Rightarrow> int \<Rightarrow> bool \<times> 'p) \<Rightarrow> (int \<Rightarrow> int \<Rightarrow> 'p \<Rightarrow> int \<Rightarrow> int \<Rightarrow> 'p) \<Rightarrow>
   bool \<Rightarrow> int \<Rightarrow> SizeT list \<Rightarrow> SizeT list \<Rightarrow> VertexId list \<Rightarrow> VertexId list \<Rightarrow> int \<Rightarrow>
   advance_TYPE \<Rightarrow> bool \<Rightarrow> REDUCE_TYPE \<Rightarrow> REDUCE_OP \<Rightarrow> Value list option \<Rightarrow>
   32 word list \<Rightarrow> 32 word list \<Rightarrow> 32 word list \<Rightarrow> int \<Rightarrow> int \<Rightarrow>
   'p \<times> VertexId list option \<times> Value list \<Rightarrow> nat \<Rightarrow> ('p \<times> VertexId list option \<times> Value list) option"
  where
  "RelaxLightEdges_thread NT CondEdge ApplyEdge MARK_PREDECESSORS label d_row_offsets
     d_inverse_row_offsets d_column_indices d_inverse_column_indices max_vertices ADVANCE_TYPE
     output_inverse_graph R_TYPE R_OP d_value_to_reduce s_edges s_vertices s_edge_ids
     size_edges offset st tid =
     do {
       let v_index = BinarySearch NT (int tid) s_edges;
       v \<leftarrow> read_int s_vertices v_index;
       e_id \<leftarrow> read_int s_edge_ids v_index;
       end_last \<leftarrow> (if v_index < int NT then read_int s_edges v_index else Some max_vertices);
       RelaxLightEdges_for NT CondEdge ApplyEdge MARK_PREDECESSORS label d_row_offsets
         d_inverse_row_offsets d_column_indices d_inverse_column_indices max_vertices
         ADVANCE_TYPE output_inverse_graph R_TYPE R_OP d_value_to_reduce s_edges s_vertices
         s_edge_ids size_edges offset (int tid) (v_index, v, e_id, end_last) st
     }"

text \<open>
  One block, from \<open>unsigned int range = input_queue_len\<close> on (a launch with \<open>queue_reset\<close>
  set, as above). \<open>%\<close> is the remainder of C, which takes the sign of the dividend.
\<close>

definition RelaxLightEdges ::
  "nat \<Rightarrow> (int \<Rightarrow> int \<Rightarrow> 'p \<Rightarrow> int \<Rightarrow> int \<Rightarrow> bool \<times> 'p) \<Rightarrow> (int \<Rightarrow> int \<Rightarrow> 'p \<Rightarrow> int \<Rightarrow> int \<Rightarrow> 'p) \<Rightarrow>
   bool \<Rightarrow> int \<Rightarrow> SizeT list \<Rightarrow> SizeT list \<Rightarrow> VertexId list \<Rightarrow> VertexId list \<Rightarrow> SizeT list \<Rightarrow>
   VertexId list \<Rightarrow> int \<Rightarrow> int \<Rightarrow> int \<Rightarrow> advance_TYPE \<Rightarrow> bool \<Rightarrow> bool \<Rightarrow> REDUCE_TYPE \<Rightarrow>
   REDUCE_OP \<Rightarrow> Value list option \<Rightarrow>
   'p \<times> VertexId list option \<times> Value list \<Rightarrow> nat \<Rightarrow> ('p \<times> VertexId list option \<times> Value list) option"
  where
  "RelaxLightEdges NT CondEdge ApplyEdge MARK_PREDECESSORS label d_row_offsets
     d_inverse_row_offsets d_column_indices d_inverse_column_indices d_scanned_edges d_queue
     input_queue_len max_vertices max_edges ADVANCE_TYPE input_inverse_graph
     output_inverse_graph R_TYPE R_OP d_value_to_reduce st bid =
     do {
       let range = uint (word_of_int input_queue_len :: 32 word);
       offset \<leftarrow> (if int NT * int bid - 1 > 0
                   then read_int d_scanned_edges (int NT * int bid - 1) else Some 0);
       let end_id0 = (if int NT * (int bid + 1) \<ge> range
                      then sint (word_of_int (range - 1) :: 32 word)
                      else int NT * (int bid + 1) - 1);
       let end_id = (if end_id0 < 0 then - ((- end_id0) mod int NT) else end_id0 mod int NT);
       s_edges \<leftarrow> those (map (\<lambda>tid. let my_id = int bid * int NT + int tid in
                                  if my_id < range
                                  then map_option (\<lambda>x. x - word_of_int offset)
                                         (array_read d_scanned_edges my_id)
                                  else Some (word_of_int max_edges)) [0..<NT]);
       s_vertices \<leftarrow> those (map (\<lambda>tid. let my_id = int bid * int NT + int tid in
                                  if my_id < range
                                  then (if ADVANCE_TYPE = V2V \<or> ADVANCE_TYPE = V2E
                                        then array_read d_queue my_id
                                        else do {
                                          q \<leftarrow> read_int d_queue my_id;
                                          if input_inverse_graph
                                          then array_read d_inverse_column_indices q
                                          else array_read d_column_indices q
                                        })
                                  else Some (word_of_int max_vertices)) [0..<NT]);
       s_edge_ids \<leftarrow> those (map (\<lambda>tid. let my_id = int bid * int NT + int tid in
                                  if ADVANCE_TYPE = V2V \<or> ADVANCE_TYPE = V2E then Some 0
                                  else if my_id < range then array_read d_queue my_id
                                  else Some (word_of_int max_vertices)) [0..<NT]);
       size_edges \<leftarrow> read_uint s_edges end_id;
       run_threads
         (RelaxLightEdges_thread NT CondEdge ApplyEdge MARK_PREDECESSORS label d_row_offsets
            d_inverse_row_offsets d_column_indices d_inverse_column_indices max_vertices
            ADVANCE_TYPE output_inverse_graph R_TYPE R_OP d_value_to_reduce s_edges s_vertices
            s_edge_ids size_edges offset)
         [0..<NT] st
     }"

definition RelaxLightEdges_kernel ::
  "nat \<Rightarrow> nat \<Rightarrow> (int \<Rightarrow> int \<Rightarrow> 'p \<Rightarrow> int \<Rightarrow> int \<Rightarrow> bool \<times> 'p) \<Rightarrow> (int \<Rightarrow> int \<Rightarrow> 'p \<Rightarrow> int \<Rightarrow> int \<Rightarrow> 'p) \<Rightarrow>
   bool \<Rightarrow> int \<Rightarrow> SizeT list \<Rightarrow> SizeT list \<Rightarrow> VertexId list \<Rightarrow> VertexId list \<Rightarrow> SizeT list \<Rightarrow>
   VertexId list \<Rightarrow> int \<Rightarrow> int \<Rightarrow> int \<Rightarrow> advance_TYPE \<Rightarrow> bool \<Rightarrow> bool \<Rightarrow> REDUCE_TYPE \<Rightarrow>
   REDUCE_OP \<Rightarrow> Value list option \<Rightarrow>
   'p \<times> VertexId list option \<times> Value list \<Rightarrow> ('p \<times> VertexId list option \<times> Value list) option"
  where
  "RelaxLightEdges_kernel num_blocks NT CondEdge ApplyEdge MARK_PREDECESSORS label d_row_offsets
     d_inverse_row_offsets d_column_indices d_inverse_column_indices d_scanned_edges d_queue
     input_queue_len max_vertices max_edges ADVANCE_TYPE input_inverse_graph
     output_inverse_graph R_TYPE R_OP d_value_to_reduce st =
     run_threads
       (RelaxLightEdges NT CondEdge ApplyEdge MARK_PREDECESSORS label d_row_offsets
          d_inverse_row_offsets d_column_indices d_inverse_column_indices d_scanned_edges d_queue
          input_queue_len max_vertices max_edges ADVANCE_TYPE input_inverse_graph
          output_inverse_graph R_TYPE R_OP d_value_to_reduce)
       [0..<num_blocks] st"

subsection \<open>What an advance step is to visit\<close>

text \<open>
  The edges an advance step has to visit, stated independently of the kernels: the
  neighbor list of a vertex \<open>v\<close> is the edges \<open>row_offsets[v] .. row_offsets[v+1] - 1\<close>; a
  frontier of vertices (\<open>V2V\<close>, \<open>V2E\<close>) names the vertices themselves, a frontier of edges
  (\<open>E2V\<close>, \<open>E2E\<close>) names the destination vertex of each edge; the edges are taken in
  frontier order, which is the order of their positions in the output.
\<close>

definition neighbor_list :: "SizeT list \<Rightarrow> int \<Rightarrow> int list" where
  "neighbor_list row_offsets v =
     [sint (row_offsets ! nat v) .. sint (row_offsets ! nat (v + 1)) - 1]"

definition frontier_vertices :: "advance_TYPE \<Rightarrow> VertexId list \<Rightarrow> VertexId list \<Rightarrow> int list" where
  "frontier_vertices ADVANCE_TYPE column_indices frontier =
     (if ADVANCE_TYPE = V2V \<or> ADVANCE_TYPE = V2E then map sint frontier
      else map (\<lambda>q. sint (column_indices ! nat (sint q))) frontier)"

definition edges_to_visit ::
  "SizeT list \<Rightarrow> VertexId list \<Rightarrow> advance_TYPE \<Rightarrow> VertexId list \<Rightarrow> int list" where
  "edges_to_visit row_offsets column_indices ADVANCE_TYPE frontier =
     concat (map (neighbor_list row_offsets)
               (frontier_vertices ADVANCE_TYPE column_indices frontier))"

text \<open>
  The array the output length is computed from, stated in the same way: at each frontier
  position the length of the neighbor list of that frontier element, and a zero-length
  entry at the sentinel position behind the last one.
\<close>

definition edge_counts_expected ::
  "SizeT list \<Rightarrow> VertexId list \<Rightarrow> advance_TYPE \<Rightarrow> VertexId list \<Rightarrow> int list" where
  "edge_counts_expected row_offsets column_indices ADVANCE_TYPE frontier =
     map (\<lambda>v. int (length (neighbor_list row_offsets v)))
       (frontier_vertices ADVANCE_TYPE column_indices frontier) @ [0]"

text \<open>
  A functor that accepts every edge and keeps a log of its calls in the problem data: for
  each accepted edge the source, the destination and the edge index it was given.
\<close>

definition log_CondEdge ::
  "int \<Rightarrow> int \<Rightarrow> (int \<times> int \<times> int) list \<Rightarrow> int \<Rightarrow> int \<Rightarrow> bool \<times> (int \<times> int \<times> int) list" where
  "log_CondEdge s_id d_id problem e_id e_id_in = (True, problem)"

definition log_ApplyEdge ::
  "int \<Rightarrow> int \<Rightarrow> (int \<times> int \<times> int) list \<Rightarrow> int \<Rightarrow> int \<Rightarrow> (int \<times> int \<times> int) list" where
  "log_ApplyEdge s_id d_id problem e_id e_id_in = problem @ [(s_id, d_id, e_id)]"

section \<open>Betweenness centrality: the forward log and its replay\<close>

text \<open>
  What \<open>FullQueue_Gather\<close> of the two iteration structures reads and writes, for one
  device and one peer: \<open>enactor_stats\<close> (iteration counter and status), of
  \<open>frontier_attribute\<close> the fields \<open>queue_length\<close>, \<open>selector\<close> and \<open>queue_reset\<close>, of
  \<open>frontier_queue\<close> the two key arrays and the buffer's own \<open>selector\<close> field
  (\<open>buffer_selector\<close> here), and of the data slice the vector
  \<open>forward_queue_offsets[peer_]\<close> and the array \<open>forward_output[peer_]\<close>.
\<close>

record BC_peer_state =
  enactor_stats :: EnactorStats
  queue_length :: int
  selector :: nat
  queue_reset :: bool
  keys :: "VertexId list list"
  buffer_selector :: nat
  forward_queue_offsets :: "int list"
  forward_output :: "VertexId list"










subsection \<open>The thread of one device\<close>









section \<open>The connected-components entry point\<close>

text \<open>
  \<open>runCC\<close> hands its results to \<open>cc\<close> through two pointers of the output struct, so the
  model keeps the objects the pointers refer to in an explicit store. An address is an
  index into the store; an object holds its \<open>int\<close> values while it is alive and is \<open>Dead\<close>
  once its lifetime has ended (a local variable at the return of its function).
\<close>

datatype object = Alive "32 word list" | Dead

type_synonym memory = "object list"

definition alloc :: "memory \<Rightarrow> 32 word list \<Rightarrow> memory \<times> nat" where
  "alloc mem vals = (mem @ [Alive vals], length mem)"

definition end_lifetime :: "memory \<Rightarrow> nat \<Rightarrow> memory" where
  "end_lifetime mem a = mem[a := Dead]"

text \<open>Reading \<open>n\<close> values through a pointer: defined only for a live object that has them.\<close>

definition load :: "memory \<Rightarrow> nat \<Rightarrow> nat \<Rightarrow> 32 word list option" where
  "load mem a n =
     (if a < length mem
      then (case mem ! a of
              Alive vals \<Rightarrow> (if n \<le> length vals then Some (take n vals) else None)
            | Dead \<Rightarrow> None)
      else None)"

text \<open>
  \<open>struct GRGraph\<close>, the two fields of the output graph that \<open>runCC\<close> sets; a pointer that
  was never assigned is \<open>None\<close> (\<open>cc\<close> obtains the struct from \<open>malloc\<close>).
\<close>

record GRGraph =
  node_value1 :: "nat option"
  aggregation :: "nat option"

text \<open>
  \<open>runCC\<close> from the point where the problem has been enacted. \<open>CCProblem\<close> is not part of
  the sources at hand, so what it delivers is given: \<open>extracted\<close> is the content
  \<open>problem->Extract\<close> writes to \<open>h_component_ids\<close>, \<open>problem_num_components\<close> is
  \<open>problem->num_components\<close>. The array \<open>h_component_ids\<close> comes from \<open>new\<close> and is never
  deleted. \<open>unsigned int num_components = problem->num_components;\<close> is a local variable
  of \<open>runCC\<close>; \<open>output->aggregation\<close> is set to its address, and the variable dies when
  \<open>runCC\<close> returns.
\<close>

definition runCC :: "32 word list \<Rightarrow> 32 word \<Rightarrow> memory \<Rightarrow> GRGraph \<times> memory" where
  "runCC extracted problem_num_components mem =
     (let (mem1, h_component_ids) = alloc mem extracted;
          (mem2, num_components) = alloc mem1 [problem_num_components];
          output = \<lparr>node_value1 = Some h_component_ids, aggregation = Some num_components\<rparr>
      in (output, end_lifetime mem2 num_components))"

text \<open>
  \<open>cc\<close>: \<open>gunrock_cc\<close> reaches \<open>runCC\<close> through \<open>dispatch_cc\<close> (the types are set to
  \<open>VTXID_INT\<close>, \<open>SIZET_INT\<close>, \<open>VALUE_INT\<close>); then
  \<open>memcpy(component, grapho->node_value1, num_nodes * sizeof(int))\<close> and
  \<open>return *num_components\<close> with \<open>num_components = (int*)grapho->aggregation\<close>. The result
  is the content of \<open>component\<close> and the returned count, or \<open>None\<close> when a read is
  undefined.
\<close>

definition cc :: "nat \<Rightarrow> 32 word list \<Rightarrow> 32 word \<Rightarrow> memory \<Rightarrow> (32 word list \<times> 32 word) option" where
  "cc num_nodes extracted problem_num_components mem =
     (let (grapho, mem') = runCC extracted problem_num_components mem
      in do {
        ids \<leftarrow> node_value1 grapho;
        component \<leftarrow> load mem' ids num_nodes;
        num_components \<leftarrow> aggregation grapho;
        count \<leftarrow> load mem' num_components 1;
        Some (component, hd count)
      })"

section \<open>Theorems\<close>

subsection \<open>Reduce-frontier fill values\<close>

lemma reject_value_light:
  "reject_value Light mp R_OP = identity_element R_OP"
  by (cases R_OP) (simp_all add: reject_value_def)

lemma reject_value_partitioned_nopred:
  "reject_value Partitioned False R_OP = identity_element R_OP"
  by (cases R_OP) (simp_all add: reject_value_def)

lemma reject_value_partitioned_pred_other:
  "R_OP \<noteq> BIT_AND \<Longrightarrow> reject_value Partitioned True R_OP = identity_element R_OP"
  by (cases R_OP) (simp_all add: reject_value_def)

text \<open>
  C4. Every advance path is claimed to store the operator's identity element for a rejected
  edge. In \<open>RelaxPartitionedEdges2\<close> with \<open>MARK_PREDECESSORS\<close> the operator \<open>BIT_AND\<close>
  falls into \<open>default\<close> and the value stored is 0, not the all-ones word; the three
  sibling switches store \<open>0xffffffff\<close>.
\<close>

theorem C4_partitioned_pred_bit_and_stores_zero:
  "reject_value Partitioned True BIT_AND = 0
   \<and> identity_element BIT_AND = 0xffffffff
   \<and> reject_value Partitioned True BIT_AND \<noteq> identity_element BIT_AND
   \<and> reject_value Light True BIT_AND = 0xffffffff
   \<and> reject_value Light False BIT_AND = 0xffffffff
   \<and> reject_value Partitioned False BIT_AND = 0xffffffff"
  by (simp add: reject_value_def)


subsection \<open>Stopping predicate of connected components\<close>

lemma list_ex_upt: "list_ex P [a..<b] \<longleftrightarrow> (\<exists>k. a \<le> k \<and> k < b \<and> P k)"
  by (auto simp: list_ex_iff)

lemma list_all_upt: "list_all P [a..<b] \<longleftrightarrow> (\<forall>k. a \<le> k \<and> k < b \<longrightarrow> P k)"
  by (auto simp: list_all_iff)

lemma wf_turn_nonneg:
  "CC_state_wf es ds n \<Longrightarrow> gpu < n \<Longrightarrow> 0 \<le> turn (ds ! gpu)"
  by (auto simp: CC_state_wf_def list_all_length)

text \<open>
  C1 (amended). Absent device faults, with two or more devices \<open>Stop_Condition\<close> returns
  true exactly when every device has completed a turn, every \<open>out_length\<close> is zero and every
  \<open>in_length\<close> of a remote peer is zero. With a single device the guard
  \<open>num_gpus < 2 && data_slice[0]->turn > 0\<close> decides alone: the result is true exactly when
  the device has completed a turn, whatever \<open>out_length[0]\<close> holds.
\<close>

theorem C1_stop_condition_amended:
  assumes wf: "CC_state_wf stats data_slice num_gpus"
      and nf: "no_device_fault stats num_gpus"
  shows "CCIteration_Stop_Condition stats data_slice num_gpus =
           (if num_gpus < 2 then 0 < turn (data_slice ! 0)
            else generic_stop_predicate data_slice num_gpus)"
proof -
  have nofault: "\<not> list_ex (\<lambda>gpu. retval (stats ! gpu) \<noteq> cudaSuccess)
                     [0..<num_gpus * num_gpus]"
    using nf by (auto simp: no_device_fault_def list_ex_upt list_all_upt)
  have pos: "0 < num_gpus" using wf by (simp add: CC_state_wf_def list_all_iff)
  have tn: "\<And>gpu. gpu < num_gpus \<Longrightarrow> 0 \<le> turn (data_slice ! gpu)"
    using wf by (rule wf_turn_nonneg)
  show ?thesis
  proof (cases "num_gpus < 2")
    case True
    then have n1: "num_gpus = 1" using pos by simp
    have "0 \<le> turn (data_slice ! 0)" using tn [of 0] pos by simp
    then show ?thesis
      using nofault n1 by (auto simp: CCIteration_Stop_Condition_def)
  next
    case False
    have turn_eq: "list_ex (\<lambda>gpu. turn (data_slice ! gpu) = 0) [0..<num_gpus]
                   \<longleftrightarrow> \<not> list_all (\<lambda>gpu. 0 < turn (data_slice ! gpu)) [0..<num_gpus]"
      using tn by (fastforce simp: list_ex_upt list_all_upt)
    show ?thesis
      using False nofault turn_eq
      by (auto simp: CCIteration_Stop_Condition_def generic_stop_predicate_def
                     list_ex_iff list_all_iff)
  qed
qed


text \<open>The amended statement at two devices that have finished and have nothing to exchange.\<close>

theorem C1_witness:
  "CC_state_wf (replicate 4 \<lparr>iteration = 1, retval = cudaSuccess\<rparr>)
      (replicate 2 \<lparr>turn = 1, in_length = [[0,0],[0,0]], out_length = [0,0]\<rparr>) 2
   \<and> no_device_fault (replicate 4 \<lparr>iteration = 1, retval = cudaSuccess\<rparr>) 2
   \<and> CCIteration_Stop_Condition (replicate 4 \<lparr>iteration = 1, retval = cudaSuccess\<rparr>)
      (replicate 2 \<lparr>turn = 1, in_length = [[0,0],[0,0]], out_length = [0,0]\<rparr>) 2
   \<and> generic_stop_predicate
      (replicate 2 \<lparr>turn = 1, in_length = [[0,0],[0,0]], out_length = [0,0]\<rparr>) 2"
proof -
  let ?es = "replicate 4 \<lparr>iteration = 1, retval = cudaSuccess\<rparr>"
  let ?ds = "replicate 2 \<lparr>turn = 1, in_length = [[0,0],[0,0]], out_length = [0::SizeT,0]\<rparr>"
  have wf: "CC_state_wf ?es ?ds 2"
    by (simp add: CC_state_wf_def list_all_iff)
  have nf: "no_device_fault ?es 2"
    by (simp add: no_device_fault_def list_all_upt)
  have g: "generic_stop_predicate ?ds 2"
    by (simp add: generic_stop_predicate_def list_all_upt less_Suc_eq numeral_2_eq_2)
  show ?thesis
    using C1_stop_condition_amended [OF wf nf] wf nf g by simp
qed

text \<open>
  C1 as stated fails on one device: after its first turn, with \<open>out_length[0] = 1\<close>,
  \<open>Stop_Condition\<close> returns true although the generic predicate is false.
\<close>

theorem C1_counterexample:
  "CC_state_wf [\<lparr>iteration = 1, retval = cudaSuccess\<rparr>]
      [\<lparr>turn = 1, in_length = [[0],[0]], out_length = [1]\<rparr>] 1
   \<and> no_device_fault [\<lparr>iteration = 1, retval = cudaSuccess\<rparr>] 1
   \<and> CCIteration_Stop_Condition [\<lparr>iteration = 1, retval = cudaSuccess\<rparr>]
      [\<lparr>turn = 1, in_length = [[0],[0]], out_length = [1]\<rparr>] 1
   \<and> \<not> generic_stop_predicate [\<lparr>turn = 1, in_length = [[0],[0]], out_length = [1]\<rparr>] 1"
  by (simp add: CC_state_wf_def no_device_fault_def CCIteration_Stop_Condition_def
      generic_stop_predicate_def)

subsection \<open>Failure propagation\<close>

lemma CC_stop_on_fault:
  "k < num_gpus * num_gpus \<Longrightarrow> retval (stats ! k) \<noteq> cudaSuccess
   \<Longrightarrow> CCIteration_Stop_Condition stats data_slice num_gpus"
  by (auto simp: CCIteration_Stop_Condition_def list_ex_upt)

lemma Backward_stop_on_fault:
  "k < num_gpus * num_gpus \<Longrightarrow> retval (stats ! k) \<noteq> cudaSuccess
   \<Longrightarrow> Backward_Iteration_Stop_Condition All_Done stats num_gpus"
  by (auto simp: Backward_Iteration_Stop_Condition_def list_ex_upt)

lemma sync_check_records:
  "sync_check err st = (st', returned) \<Longrightarrow> retval st' = err \<and> (returned \<longleftrightarrow> err \<noteq> cudaSuccess)"
  by (auto simp: sync_check_def)

lemma launch_check_records:
  "launch_check True err st = (st', returned)
   \<Longrightarrow> retval st' = err \<and> (returned \<longleftrightarrow> err \<noteq> cudaSuccess)"
  by (auto simp: launch_check_def)

lemma EnactCC_single_device:
  "EnactCC stats 1 = first_device_failure stats 1"
  by (simp add: EnactCC_def first_device_failure_def)

text \<open>
  C6. A failure is stored in the failing device's slot and a non-success status in any of
  the \<open>num_gpus * num_gpus\<close> slots stops the iteration (\<open>CC_stop_on_fault\<close>,
  \<open>Backward_stop_on_fault\<close>). \<open>EnactCC\<close> however reads the slots \<open>0 .. num_gpus - 1\<close>,
  which all belong to device 0. With two devices, a failed stream synchronisation on device 1
  is stored in slot \<open>1 * 2 + 0\<close>: \<open>Stop_Condition\<close> returns true and \<open>EnactCC\<close> returns
  \<open>cudaSuccess\<close>, where the first non-success per-device status is 4.
\<close>

theorem C6_enact_misses_device_failure:
  "retval (([\<lparr>iteration = 1, retval = cudaSuccess\<rparr>, \<lparr>iteration = 1, retval = cudaSuccess\<rparr>,
             \<lparr>iteration = 1, retval = cudaSuccess\<rparr>, \<lparr>iteration = 1, retval = cudaSuccess\<rparr>]
            [1 * 2 + 0 := fst (sync_check 4 \<lparr>iteration = 1, retval = cudaSuccess\<rparr>)]) ! 2) = 4
   \<and> CCIteration_Stop_Condition
        ([\<lparr>iteration = 1, retval = cudaSuccess\<rparr>, \<lparr>iteration = 1, retval = cudaSuccess\<rparr>,
          \<lparr>iteration = 1, retval = cudaSuccess\<rparr>, \<lparr>iteration = 1, retval = cudaSuccess\<rparr>]
         [1 * 2 + 0 := fst (sync_check 4 \<lparr>iteration = 1, retval = cudaSuccess\<rparr>)])
        [\<lparr>turn = 1, in_length = [[0, 0], [0, 0]], out_length = [1, 1]\<rparr>,
         \<lparr>turn = 1, in_length = [[0, 0], [0, 0]], out_length = [1, 1]\<rparr>] 2
   \<and> EnactCC
        ([\<lparr>iteration = 1, retval = cudaSuccess\<rparr>, \<lparr>iteration = 1, retval = cudaSuccess\<rparr>,
          \<lparr>iteration = 1, retval = cudaSuccess\<rparr>, \<lparr>iteration = 1, retval = cudaSuccess\<rparr>]
         [1 * 2 + 0 := fst (sync_check 4 \<lparr>iteration = 1, retval = cudaSuccess\<rparr>)]) 2
       = cudaSuccess
   \<and> first_device_failure
        ([\<lparr>iteration = 1, retval = cudaSuccess\<rparr>, \<lparr>iteration = 1, retval = cudaSuccess\<rparr>,
          \<lparr>iteration = 1, retval = cudaSuccess\<rparr>, \<lparr>iteration = 1, retval = cudaSuccess\<rparr>]
         [1 * 2 + 0 := fst (sync_check 4 \<lparr>iteration = 1, retval = cudaSuccess\<rparr>)]) 2
       = 4"
  by (simp add: sync_check_def CCIteration_Stop_Condition_def EnactCC_def
      first_device_failure_def cudaSuccess_def numeral_2_eq_2 upt_rec)

subsection \<open>Frontier capacity before a launch\<close>





subsection \<open>Merging incoming component ids\<close>

lemma element_result:
  assumes x: "x < length keys_in" "x < length vin"
      and k: "0 \<le> sint (keys_in ! x)" "sint (keys_in ! x) < int (length org)"
  shows "Expand_Incoming_BothWay_element keys_in vin org x =
           Some (if sint (vin ! x) < sint (org ! nat (sint (keys_in ! x)))
                 then org[nat (sint (keys_in ! x)) := vin ! x] else org)"
  using assms by (simp add: Expand_Incoming_BothWay_element_def array_read_def array_write_def)

lemma element_nth:
  assumes x: "x < length keys_in" "x < length vin"
      and k: "0 \<le> sint (keys_in ! x)" "sint (keys_in ! x) < int (length org)"
      and r: "Expand_Incoming_BothWay_element keys_in vin org x = Some org'"
      and j: "j < length org"
  shows "length org' = length org"
    and "sint (org' ! j) = (if sint (keys_in ! x) = int j
                            then min (sint (org ! j)) (sint (vin ! x)) else sint (org ! j))"
proof -
  have e: "org' = (if sint (vin ! x) < sint (org ! nat (sint (keys_in ! x)))
                 then org[nat (sint (keys_in ! x)) := vin ! x] else org)"
    using element_result [OF x k] r by simp
  show "length org' = length org" using e by simp
  show "sint (org' ! j) = (if sint (keys_in ! x) = int j
                            then min (sint (org ! j)) (sint (vin ! x)) else sint (org ! j))"
  proof (cases "sint (keys_in ! x) = int j")
    case True
    then have "nat (sint (keys_in ! x)) = j" by simp
    then show ?thesis using e j True by (auto simp: min_def)
  next
    case False
    then have "nat (sint (keys_in ! x)) \<noteq> j" using k by linarith
    then show ?thesis using e j False by auto
  qed
qed

lemma merge_general:
  assumes wf: "incoming_wf keys_in vin org n"
      and ord: "set order \<subseteq> {..<n}"
  shows "\<exists>org'. Expand_Incoming_BothWay keys_in vin org order = Some org'
           \<and> length org' = length org
           \<and> (\<forall>k < length org. sint (org' ! k) =
                 Min (insert (sint (org ! k))
                   ((\<lambda>x. sint (vin ! x)) ` {x \<in> set order. sint (keys_in ! x) = int k})))"
  using assms
proof (induction order arbitrary: org)
  case Nil
  then show ?case by simp
next
  case (Cons x order)
  have xn: "x < n" using Cons.prems by simp
  have x: "x < length keys_in" "x < length vin"
    using Cons.prems xn by (auto simp: incoming_wf_def)
  have k: "0 \<le> sint (keys_in ! x)" "sint (keys_in ! x) < int (length org)"
    using Cons.prems xn by (auto simp: incoming_wf_def list_all_iff)
  obtain org1 where r1: "Expand_Incoming_BothWay_element keys_in vin org x = Some org1"
    using element_result [OF x k] by simp
  have l1: "length org1 = length org"
    using element_result [OF x k] r1 by (auto split: if_splits)
  have wf1: "incoming_wf keys_in vin org1 n"
    using Cons.prems(1) l1 by (simp add: incoming_wf_def)
  have ord1: "set order \<subseteq> {..<n}" using Cons.prems by simp
  obtain org' where r: "Expand_Incoming_BothWay keys_in vin org1 order = Some org'"
    and l: "length org' = length org1"
    and m: "\<forall>k < length org1. sint (org' ! k) =
                 Min (insert (sint (org1 ! k))
                   ((\<lambda>x. sint (vin ! x)) ` {x \<in> set order. sint (keys_in ! x) = int k}))"
    using Cons.IH [OF wf1 ord1] by blast
  have "\<forall>j < length org. sint (org' ! j) =
                 Min (insert (sint (org ! j))
                   ((\<lambda>y. sint (vin ! y)) ` {y \<in> set (x # order). sint (keys_in ! y) = int j}))"
  proof (intro allI impI)
    fix j assume j: "j < length org"
    define S where "S = (\<lambda>y. sint (vin ! y)) ` {y \<in> set order. sint (keys_in ! y) = int j}"
    have fin: "finite S" by (simp add: S_def)
    have a: "sint (org' ! j) = Min (insert (sint (org1 ! j)) S)"
      using m j l1 by (simp add: S_def)
    have b: "sint (org1 ! j) = (if sint (keys_in ! x) = int j
                            then min (sint (org ! j)) (sint (vin ! x)) else sint (org ! j))"
      using element_nth(2) [OF x k r1 j] .
    show "sint (org' ! j) = Min (insert (sint (org ! j))
                   ((\<lambda>y. sint (vin ! y)) ` {y \<in> set (x # order). sint (keys_in ! y) = int j}))"
    proof (cases "sint (keys_in ! x) = int j")
      case True
      have s: "(\<lambda>y. sint (vin ! y)) ` {y \<in> set (x # order). sint (keys_in ! y) = int j}
               = insert (sint (vin ! x)) S"
        using True by (auto simp: S_def)
      have "Min (insert (min (sint (org ! j)) (sint (vin ! x))) S)
            = Min (insert (sint (org ! j)) (insert (sint (vin ! x)) S))"
      proof (cases "S = {}")
        case True
        then show ?thesis by simp
      next
        case False
        have "Min (insert (min (sint (org ! j)) (sint (vin ! x))) S)
              = min (min (sint (org ! j)) (sint (vin ! x))) (Min S)"
          using fin False by (rule Min_insert)
        moreover have "Min (insert (sint (vin ! x)) S) = min (sint (vin ! x)) (Min S)"
          using fin False by (rule Min_insert)
        moreover have "Min (insert (sint (org ! j)) (insert (sint (vin ! x)) S))
              = min (sint (org ! j)) (Min (insert (sint (vin ! x)) S))"
          by (rule Min_insert) (use fin in simp_all)
        ultimately show ?thesis by (simp only: min.assoc)
      qed
      then show ?thesis using a b True s by simp
    next
      case False
      have s: "(\<lambda>y. sint (vin ! y)) ` {y \<in> set (x # order). sint (keys_in ! y) = int j} = S"
        using False by (auto simp: S_def)
      show ?thesis using a b False s by simp
    qed
  qed
  then show ?case using r r1 l l1 by simp
qed

text \<open>
  C8. One incoming message replaces the stored component id exactly when the incoming id is
  smaller. Merging the messages \<open>0 .. num_elements - 1\<close> in any order, each once or
  several times, succeeds and leaves at every vertex the minimum of the id stored before
  and all ids sent to that vertex; two orders give the same array.
\<close>

theorem C8_merge_is_minimum:
  assumes wf: "incoming_wf keys_in vertex_associate_in vertex_associate_org num_elements"
      and ord: "set order = {..<num_elements}"
      and ord': "set order' = {..<num_elements}"
      and x: "x < num_elements"
  shows "Expand_Incoming_BothWay_element keys_in vertex_associate_in vertex_associate_org x =
           Some (if sint (vertex_associate_in ! x)
                      < sint (vertex_associate_org ! nat (sint (keys_in ! x)))
                 then vertex_associate_org[nat (sint (keys_in ! x)) := vertex_associate_in ! x]
                 else vertex_associate_org)
         \<and> (\<exists>org'. Expand_Incoming_BothWay keys_in vertex_associate_in vertex_associate_org order
                       = Some org'
               \<and> Expand_Incoming_BothWay keys_in vertex_associate_in vertex_associate_org order'
                       = Some org'
               \<and> length org' = length vertex_associate_org
               \<and> (\<forall>k < length vertex_associate_org. sint (org' ! k) =
                      Min (insert (sint (vertex_associate_org ! k))
                             (incoming_for keys_in vertex_associate_in num_elements k))))"
proof -
  have sub: "set order \<subseteq> {..<num_elements}" "set order' \<subseteq> {..<num_elements}"
    using ord ord' by simp_all
  have eq: "\<And>k. {x \<in> set order. sint (keys_in ! x) = int k}
               = {x. x < num_elements \<and> sint (keys_in ! x) = int k}"
           "\<And>k. {x \<in> set order'. sint (keys_in ! x) = int k}
               = {x. x < num_elements \<and> sint (keys_in ! x) = int k}"
    using ord ord' by auto
  obtain org1 where r1: "Expand_Incoming_BothWay keys_in vertex_associate_in vertex_associate_org
                           order = Some org1"
    and l1: "length org1 = length vertex_associate_org"
    and m1: "\<forall>k < length vertex_associate_org. sint (org1 ! k) =
                Min (insert (sint (vertex_associate_org ! k))
                       (incoming_for keys_in vertex_associate_in num_elements k))"
    using merge_general [OF wf sub(1)] unfolding incoming_for_def eq by blast
  obtain org2 where r2: "Expand_Incoming_BothWay keys_in vertex_associate_in vertex_associate_org
                           order' = Some org2"
    and l2: "length org2 = length vertex_associate_org"
    and m2: "\<forall>k < length vertex_associate_org. sint (org2 ! k) =
                Min (insert (sint (vertex_associate_org ! k))
                       (incoming_for keys_in vertex_associate_in num_elements k))"
    using merge_general [OF wf sub(2)] unfolding incoming_for_def eq by blast
  have "org1 = org2"
  proof (rule nth_equalityI)
    show "length org1 = length org2" using l1 l2 by simp
    fix i assume "i < length org1"
    then have "sint (org1 ! i) = sint (org2 ! i)" using m1 m2 l1 by simp
    then show "org1 ! i = org2 ! i" by (rule signed_word_eqI)
  qed
  moreover have "Expand_Incoming_BothWay_element keys_in vertex_associate_in vertex_associate_org x =
           Some (if sint (vertex_associate_in ! x)
                      < sint (vertex_associate_org ! nat (sint (keys_in ! x)))
                 then vertex_associate_org[nat (sint (keys_in ! x)) := vertex_associate_in ! x]
                 else vertex_associate_org)"
    using wf x by (intro element_result) (auto simp: incoming_wf_def list_all_iff)
  ultimately show ?thesis using r1 r2 l1 m1 by blast
qed

text \<open>
  Three messages for two vertices, merged in the order 2, 0, 1 and in the order 0, 1, 2, 1.
\<close>

theorem C8_witness:
  "incoming_wf [1, 0, 1] [5, 7, 2] [9, 4] 3
   \<and> set [2, 0, 1] = {..<(3::nat)} \<and> set [0, 1, 2, 1] = {..<(3::nat)}
   \<and> Expand_Incoming_BothWay [1, 0, 1] [5, 7, 2] [9, 4] [2, 0, 1] = Some [7, 2]
   \<and> Expand_Incoming_BothWay [1, 0, 1] [5, 7, 2] [9, 4] [0, 1, 2, 1] = Some [7, 2]
   \<and> Min (insert (sint (9 :: VertexId)) (incoming_for [1, 0, 1] [5, 7, 2] 3 0)) = 7
   \<and> Min (insert (sint (4 :: VertexId)) (incoming_for [1, 0, 1] [5, 7, 2] 3 1)) = 2"
proof -
  have wf: "incoming_wf [1, 0, 1] [5, 7, 2] [9, 4] 3"
    by (simp add: incoming_wf_def list_all_iff less_Suc_eq numeral_3_eq_3)
  have o1: "set [2, 0, 1] = {..<(3::nat)}" by auto
  have o2: "set [0, 1, 2, 1] = {..<(3::nat)}" by auto
  have x: "(0::nat) < 3" by simp
  have run: "Expand_Incoming_BothWay [1, 0, 1] [5, 7, 2] [9, 4] [2, 0, 1] = Some [7, 2]"
    by (simp add: Expand_Incoming_BothWay_element_def array_read_def array_write_def)
  obtain org' where
        a: "Expand_Incoming_BothWay [1, 0, 1] [5, 7, 2] [9, 4] [2, 0, 1] = Some org'"
    and b: "Expand_Incoming_BothWay [1, 0, 1] [5, 7, 2] [9, 4] [0, 1, 2, 1] = Some org'"
    and m: "\<forall>k < length [9 :: VertexId, 4]. sint (org' ! k) =
               Min (insert (sint ([9 :: VertexId, 4] ! k)) (incoming_for [1, 0, 1] [5, 7, 2] 3 k))"
    using C8_merge_is_minimum [OF wf o1 o2 x] by blast
  have e: "org' = [7, 2]" using a run by simp
  have "sint (org' ! 0) = Min (insert (sint ([9 :: VertexId, 4] ! 0)) (incoming_for [1, 0, 1] [5, 7, 2] 3 0))"
    using m by simp
  moreover have "sint (org' ! 1) = Min (insert (sint ([9 :: VertexId, 4] ! 1)) (incoming_for [1, 0, 1] [5, 7, 2] 3 1))"
    using m by simp
  ultimately show ?thesis using wf o1 o2 run b e by simp
qed

subsection \<open>Word arithmetic\<close>

lemma sint_succ:
  fixes v :: "32 word"
  assumes "sint v < 2147483647"
  shows "sint (v + 1) = sint v + 1"
proof -
  have lo: "- (2 ^ 31) \<le> sint v" using sint_ge [of v] by simp
  have "sint (v + 1) = signed_take_bit 31 (sint v + sint (1 :: 32 word))"
    by (simp add: sint_word_ariths)
  also have "\<dots> = signed_take_bit 31 (sint v + 1)" by simp
  also have "\<dots> = sint v + 1"
    using lo assms by (intro signed_take_bit_int_eq_self) simp_all
  finally show ?thesis .
qed

lemma sint_less_max:
  fixes a b :: "32 word"
  assumes "sint a < sint b"
  shows "sint a < 2147483647"
  using assms sint_lt [of b] by simp

lemma sint_of_nat_32:
  assumes "t < 2 ^ 31"
  shows "sint (of_nat t :: 32 word) = int t"
proof -
  have "sint (of_nat t :: 32 word) = signed_take_bit 31 (int t)"
    by (simp add: signed_of_nat)
  also have "\<dots> = int t"
    using assms by (intro signed_take_bit_int_eq_self) simp_all
  finally show ?thesis .
qed


subsection \<open>Neighbor-list lengths\<close>

lemma GetNeighborListLength_defined:
  assumes v: "0 \<le> sint d_vertex_id" "sint d_vertex_id < 2147483647"
      and len: "sint max_vertex \<le> int (length d_row_offsets)"
  shows "GetNeighborListLength d_row_offsets d_vertex_id max_vertex max_edge =
           Some (let first = (if sint max_vertex \<le> sint d_vertex_id then max_edge
                              else d_row_offsets ! nat (sint d_vertex_id));
                     second = (if sint max_vertex \<le> sint d_vertex_id + 1 then max_edge
                               else d_row_offsets ! nat (sint d_vertex_id + 1))
                 in if sint first < sint second then second - first else 0)"
  using v len
  by (simp add: GetNeighborListLength_def array_read_def sint_succ Let_def)


lemma GetNeighborListLength_csr:
  assumes wf: "csr_wf row_offsets column_indices nodes edges"
      and v: "0 \<le> sint v" "sint v < sint nodes"
  shows "GetNeighborListLength row_offsets v nodes edges =
           Some (row_offsets ! (nat (sint v) + 1) - row_offsets ! nat (sint v))"
proof -
  have vmax: "sint v < 2147483647" using v(2) by (rule sint_less_max)
  have len: "length row_offsets = nat (sint nodes) + 1"
    and srt: "sorted (map sint row_offsets)"
    and last: "row_offsets ! nat (sint nodes) = edges"
    using wf by (simp_all add: csr_wf_def)
  have i1: "nat (sint v) + 1 < length row_offsets" using v len by linarith
  have le: "sint (row_offsets ! nat (sint v)) \<le> sint (row_offsets ! (nat (sint v) + 1))"
    using srt i1 sorted_iff_nth_mono [of "map sint row_offsets"]
    by (metis (no_types, lifting) add_lessD1 le_add1 length_map nth_map)
  have second: "(if sint nodes \<le> sint v + 1 then edges else row_offsets ! nat (sint v + 1))
                = row_offsets ! (nat (sint v) + 1)"
  proof (cases "sint nodes \<le> sint v + 1")
    case True
    then have "sint nodes = sint v + 1" using v by simp
    then have "nat (sint nodes) = nat (sint v) + 1" using v by simp
    then show ?thesis using True last by simp
  next
    case False
    have "nat (sint v + 1) = nat (sint v) + 1" using v by simp
    then show ?thesis using False by simp
  qed
  have first: "(if sint nodes \<le> sint v then edges else row_offsets ! nat (sint v))
               = row_offsets ! nat (sint v)"
    using v by simp
  have len': "sint nodes \<le> int (length row_offsets)" using len v by linarith
  have "GetNeighborListLength row_offsets v nodes edges =
          Some (if sint (row_offsets ! nat (sint v)) < sint (row_offsets ! (nat (sint v) + 1))
                then row_offsets ! (nat (sint v) + 1) - row_offsets ! nat (sint v) else 0)"
    using GetNeighborListLength_defined [OF v(1) vmax len', of edges]
    unfolding Let_def first second by simp
  moreover have "\<not> sint (row_offsets ! nat (sint v)) < sint (row_offsets ! (nat (sint v) + 1))
                 \<Longrightarrow> row_offsets ! (nat (sint v) + 1) - row_offsets ! nat (sint v) = 0"
  proof -
    assume "\<not> sint (row_offsets ! nat (sint v)) < sint (row_offsets ! (nat (sint v) + 1))"
    then have "sint (row_offsets ! nat (sint v)) = sint (row_offsets ! (nat (sint v) + 1))"
      using le by simp
    then have "row_offsets ! nat (sint v) = row_offsets ! (nat (sint v) + 1)"
      by (rule signed_word_eqI)
    then show ?thesis by simp
  qed
  ultimately show ?thesis by auto
qed

subsection \<open>Edge counts of a frontier\<close>

lemma GetEdgeCounts_skip:
  assumes "sint num_elements < sint my_id \<or> sint max_edge \<le> sint my_id"
  shows "GetEdgeCounts d_row_offsets d_column_indices d_column_offsets d_row_indices d_queue
           d_scanned_edges num_elements max_vertex max_edge ADVANCE_TYPE in_inv out_inv my_id
         = Some d_scanned_edges"
  using assms by (simp add: GetEdgeCounts_def)

lemma GetEdgeCounts_sentinel:
  assumes "sint my_id = sint num_elements" "sint my_id < sint max_edge" "0 \<le> sint my_id"
      and "sint my_id < int (length d_column_indices)"
      and "sint my_id < int (length d_scanned_edges)"
  shows "GetEdgeCounts d_row_offsets d_column_indices d_column_offsets d_row_indices d_queue
           d_scanned_edges num_elements max_vertex max_edge ADVANCE_TYPE False out_inv my_id
         = Some (d_scanned_edges[nat (sint my_id) := 0])"
  using assms by (simp add: GetEdgeCounts_def array_read_def array_write_def)

lemma GetEdgeCounts_rejected_entry:
  assumes mode: "ADVANCE_TYPE = V2V \<or> ADVANCE_TYPE = V2E"
      and id: "0 \<le> sint my_id" "sint my_id < sint num_elements" "sint my_id < sint max_edge"
      and len: "sint my_id < int (length d_column_indices)" "sint my_id < int (length d_queue)"
               "sint my_id < int (length d_scanned_edges)"
      and bad: "sint (d_queue ! nat (sint my_id)) < 0
                \<or> sint max_vertex < sint (d_queue ! nat (sint my_id))"
  shows "GetEdgeCounts d_row_offsets d_column_indices d_column_offsets d_row_indices d_queue
           d_scanned_edges num_elements max_vertex max_edge ADVANCE_TYPE False out_inv my_id
         = Some (d_scanned_edges[nat (sint my_id) := 0])"
  using assms by (auto simp: GetEdgeCounts_def array_read_def array_write_def)

lemma GetEdgeCounts_entry:
  assumes mode: "ADVANCE_TYPE = V2V \<or> ADVANCE_TYPE = V2E"
      and id: "0 \<le> sint my_id" "sint my_id < sint num_elements" "sint my_id < sint max_edge"
      and len: "sint my_id < int (length d_column_indices)" "sint my_id < int (length d_queue)"
               "sint my_id < int (length d_scanned_edges)"
      and good: "0 \<le> sint (d_queue ! nat (sint my_id))"
                "sint (d_queue ! nat (sint my_id)) \<le> sint max_vertex"
      and n: "GetNeighborListLength d_row_offsets (d_queue ! nat (sint my_id)) max_vertex max_edge
                = Some ncount"
  shows "GetEdgeCounts d_row_offsets d_column_indices d_column_offsets d_row_indices d_queue
           d_scanned_edges num_elements max_vertex max_edge ADVANCE_TYPE False False my_id
         = Some (d_scanned_edges[nat (sint my_id) := ncount])"
proof -
  have ne: "my_id \<noteq> num_elements" using id(2) by auto
  show ?thesis
    using assms ne by (auto simp: GetEdgeCounts_def array_read_def array_write_def)
qed

text \<open>The value a thread stores for a frontier of vertices of a well-formed graph.\<close>

lemma GetEdgeCounts_thread:
  assumes mode: "ADVANCE_TYPE = V2V \<or> ADVANCE_TYPE = V2E"
      and csr: "csr_wf row_offsets column_indices nodes edges"
      and fr: "frontier_wf d_queue num_elements nodes"
      and t: "t < 2 ^ 31"
      and cover: "int t \<le> sint num_elements \<and> int t < sint edges \<longrightarrow> t < length d_scanned_edges"
  shows "GetEdgeCounts row_offsets column_indices d_column_offsets d_row_indices d_queue
           d_scanned_edges num_elements nodes edges ADVANCE_TYPE False False (of_nat t)
         = Some (if int t \<le> sint num_elements \<and> int t < sint edges
                 then d_scanned_edges[t :=
                        (if int t = sint num_elements then 0
                         else row_offsets ! (nat (sint (d_queue ! t)) + 1)
                              - row_offsets ! nat (sint (d_queue ! t)))]
                 else d_scanned_edges)"
proof -
  have st: "sint (of_nat t :: 32 word) = int t" using t by (rule sint_of_nat_32)
  have nt: "nat (sint (of_nat t :: 32 word)) = t" using st by simp
  have lenC: "length column_indices = nat (sint edges)" using csr by (simp add: csr_wf_def)
  show ?thesis
  proof (cases "int t \<le> sint num_elements \<and> int t < sint edges")
    case False
    then have "sint num_elements < sint (of_nat t :: 32 word)
               \<or> sint edges \<le> sint (of_nat t :: 32 word)"
      using st by linarith
    then have "GetEdgeCounts row_offsets column_indices d_column_offsets d_row_indices d_queue
           d_scanned_edges num_elements nodes edges ADVANCE_TYPE False False (of_nat t)
         = Some d_scanned_edges"
      by (rule GetEdgeCounts_skip)
    then show ?thesis using False by (simp only: if_False)
  next
    case True
    then have tl: "t < length d_scanned_edges" using cover by simp
    have tc: "t < length column_indices" using True lenC by linarith
    show ?thesis
    proof (cases "int t = sint num_elements")
      case eq: True
      have "GetEdgeCounts row_offsets column_indices d_column_offsets d_row_indices d_queue
              d_scanned_edges num_elements nodes edges ADVANCE_TYPE False False (of_nat t)
            = Some (d_scanned_edges[nat (sint (of_nat t :: 32 word)) := 0])"
        by (rule GetEdgeCounts_sentinel) (use st eq True tl tc in simp_all)
      then show ?thesis using nt eq True by simp
    next
      case neq: False
      then have lt: "int t < sint num_elements" using True by simp
      have tn: "t < nat (sint num_elements)" using lt by linarith
      have tq: "t < length d_queue" using fr tn by (simp add: frontier_wf_def)
      have v: "0 \<le> sint (d_queue ! t)" "sint (d_queue ! t) < sint nodes"
        using fr tn by (auto simp: frontier_wf_def list_all_iff)
      have n: "GetNeighborListLength row_offsets (d_queue ! nat (sint (of_nat t :: 32 word)))
                 nodes edges =
                 Some (row_offsets ! (nat (sint (d_queue ! t)) + 1)
                       - row_offsets ! nat (sint (d_queue ! t)))"
        unfolding nt using csr v by (rule GetNeighborListLength_csr)
      have "GetEdgeCounts row_offsets column_indices d_column_offsets d_row_indices d_queue
              d_scanned_edges num_elements nodes edges ADVANCE_TYPE False False (of_nat t)
            = Some (d_scanned_edges[nat (sint (of_nat t :: 32 word)) :=
                      row_offsets ! (nat (sint (d_queue ! t)) + 1)
                      - row_offsets ! nat (sint (d_queue ! t))])"
        by (rule GetEdgeCounts_entry [OF mode _ _ _ _ _ _ _ _ n])
           (use st nt lt True tl tc tq v in simp_all)
      then show ?thesis using nt neq True by simp
    qed
  qed
qed

lemma GetEdgeCounts_threads_effect:
  assumes mode: "ADVANCE_TYPE = V2V \<or> ADVANCE_TYPE = V2E"
      and csr: "csr_wf row_offsets column_indices nodes edges"
      and fr: "frontier_wf d_queue num_elements nodes"
      and ids: "\<forall>t \<in> set ids. t < 2 ^ 31"
      and cover: "\<forall>t \<in> set ids. int t \<le> sint num_elements \<and> int t < sint edges
                    \<longrightarrow> t < length d_scanned_edges"
  shows "\<exists>s'. GetEdgeCounts_threads row_offsets column_indices d_column_offsets d_row_indices
                d_queue num_elements nodes edges ADVANCE_TYPE False False ids d_scanned_edges
              = Some s'
           \<and> length s' = length d_scanned_edges
           \<and> (\<forall>i < length d_scanned_edges. s' ! i =
                 (if i \<in> set ids \<and> int i \<le> sint num_elements \<and> int i < sint edges
                  then (if int i = sint num_elements then 0
                        else row_offsets ! (nat (sint (d_queue ! i)) + 1)
                             - row_offsets ! nat (sint (d_queue ! i)))
                  else d_scanned_edges ! i))"
  using ids cover
proof (induction ids arbitrary: d_scanned_edges)
  case Nil
  then show ?case by simp
next
  case (Cons t ids)
  let ?cell = "\<lambda>i. if int i = sint num_elements then 0
                     else row_offsets ! (nat (sint (d_queue ! i)) + 1)
                          - row_offsets ! nat (sint (d_queue ! i))"
  let ?w = "\<lambda>i. int i \<le> sint num_elements \<and> int i < sint edges"
  define s1 where "s1 = (if ?w t then d_scanned_edges[t := ?cell t] else d_scanned_edges)"
  have t: "t < 2 ^ 31" using Cons.prems(1) by simp
  have c: "?w t \<longrightarrow> t < length d_scanned_edges" using Cons.prems(2) by simp
  have step: "GetEdgeCounts row_offsets column_indices d_column_offsets d_row_indices d_queue
           d_scanned_edges num_elements nodes edges ADVANCE_TYPE False False (of_nat t) = Some s1"
    unfolding s1_def using GetEdgeCounts_thread [OF mode csr fr t c] by simp
  have l1: "length s1 = length d_scanned_edges" by (simp add: s1_def)
  have ids': "\<forall>t \<in> set ids. t < 2 ^ 31" using Cons.prems(1) by simp
  have cover': "\<forall>t \<in> set ids. ?w t \<longrightarrow> t < length s1" using Cons.prems(2) l1 by simp
  obtain s' where r: "GetEdgeCounts_threads row_offsets column_indices d_column_offsets
                        d_row_indices d_queue num_elements nodes edges ADVANCE_TYPE False False
                        ids s1 = Some s'"
    and l: "length s' = length s1"
    and m: "\<forall>i < length s1. s' ! i = (if i \<in> set ids \<and> ?w i then ?cell i else s1 ! i)"
    using Cons.IH [OF ids' cover'] by blast
  have "\<forall>i < length d_scanned_edges. s' ! i =
          (if i \<in> set (t # ids) \<and> ?w i then ?cell i else d_scanned_edges ! i)"
  proof (intro allI impI)
    fix i assume i: "i < length d_scanned_edges"
    have a: "s' ! i = (if i \<in> set ids \<and> ?w i then ?cell i else s1 ! i)" using m i l1 by simp
    have b: "s1 ! i = (if i = t \<and> ?w t then ?cell t else d_scanned_edges ! i)"
      using i by (auto simp: s1_def)
    show "s' ! i = (if i \<in> set (t # ids) \<and> ?w i then ?cell i else d_scanned_edges ! i)"
      unfolding a b by auto
  qed
  then show ?case using step r l l1 by simp
qed

text \<open>
  Where the kernel does what is wanted of it. For a vertex frontier (\<open>V2V\<close> or \<open>V2E\<close>) of
  a well-formed CSR graph, one launch of \<open>GetEdgeCounts\<close> with more than \<open>num_elements\<close>
  threads writes, at every position \<open>i < num_elements\<close> that is also below \<open>max_edge\<close>, the
  neighbor-list length of \<open>d_queue[i]\<close>, and 0 at the sentinel position \<open>num_elements\<close>
  if that is below \<open>max_edge\<close>, provided \<open>d_scanned_edges\<close> has a cell for each of these
  positions. Every other cell keeps its old content, because a thread with
  \<open>my_id >= max_edge\<close> returns before it writes. For every vertex \<open>v\<close> of the graph,
  \<open>GetNeighborListLength(v)\<close> is \<open>row_offsets[v+1] - row_offsets[v]\<close>.
\<close>

lemma GetEdgeCounts_kernel_vertex_frontier:
  assumes mode: "ADVANCE_TYPE = V2V \<or> ADVANCE_TYPE = V2E"
      and csr: "csr_wf row_offsets column_indices nodes edges"
      and fr: "frontier_wf d_queue num_elements nodes"
      and nt: "nat (sint num_elements) < num_threads" "num_threads \<le> 2 ^ 31"
      and cover: "min (nat (sint num_elements) + 1) (nat (sint edges)) \<le> length d_scanned_edges"
      and v: "0 \<le> sint v" "sint v < sint nodes"
  shows "(\<exists>s'. GetEdgeCounts_kernel row_offsets column_indices d_column_offsets d_row_indices
                 d_queue d_scanned_edges num_elements nodes edges ADVANCE_TYPE False False
                 num_threads = Some s'
            \<and> length s' = length d_scanned_edges
            \<and> (\<forall>i < length d_scanned_edges. s' ! i =
                  (if int i < sint num_elements \<and> int i < sint edges
                   then the (GetNeighborListLength row_offsets (d_queue ! i) nodes edges)
                   else if int i = sint num_elements \<and> int i < sint edges then 0
                   else d_scanned_edges ! i)))
         \<and> GetNeighborListLength row_offsets v nodes edges =
             Some (row_offsets ! (nat (sint v) + 1) - row_offsets ! nat (sint v))"
proof -
  have ne: "0 \<le> sint num_elements" using fr by (simp add: frontier_wf_def)
  have ids: "\<forall>t \<in> set [0..<num_threads]. t < 2 ^ 31" using nt(2) by auto
  have cov: "\<forall>t \<in> set [0..<num_threads]. int t \<le> sint num_elements \<and> int t < sint edges
               \<longrightarrow> t < length d_scanned_edges"
    using cover by auto
  obtain s' where r: "GetEdgeCounts_threads row_offsets column_indices d_column_offsets
                        d_row_indices d_queue num_elements nodes edges ADVANCE_TYPE False False
                        [0..<num_threads] d_scanned_edges = Some s'"
    and l: "length s' = length d_scanned_edges"
    and m: "\<forall>i < length d_scanned_edges. s' ! i =
                 (if i \<in> set [0..<num_threads] \<and> int i \<le> sint num_elements \<and> int i < sint edges
                  then (if int i = sint num_elements then 0
                        else row_offsets ! (nat (sint (d_queue ! i)) + 1)
                             - row_offsets ! nat (sint (d_queue ! i)))
                  else d_scanned_edges ! i)"
    using GetEdgeCounts_threads_effect [OF mode csr fr ids cov] by blast
  have "\<forall>i < length d_scanned_edges. s' ! i =
                  (if int i < sint num_elements \<and> int i < sint edges
                   then the (GetNeighborListLength row_offsets (d_queue ! i) nodes edges)
                   else if int i = sint num_elements \<and> int i < sint edges then 0
                   else d_scanned_edges ! i)"
  proof (intro allI impI)
    fix i assume i: "i < length d_scanned_edges"
    have a: "s' ! i = (if i \<in> set [0..<num_threads] \<and> int i \<le> sint num_elements
                          \<and> int i < sint edges
                  then (if int i = sint num_elements then 0
                        else row_offsets ! (nat (sint (d_queue ! i)) + 1)
                             - row_offsets ! nat (sint (d_queue ! i)))
                  else d_scanned_edges ! i)"
      using m i by simp
    have inthr: "int i \<le> sint num_elements \<Longrightarrow> i \<in> set [0..<num_threads]"
      using nt(1) ne by auto
    show "s' ! i = (if int i < sint num_elements \<and> int i < sint edges
                   then the (GetNeighborListLength row_offsets (d_queue ! i) nodes edges)
                   else if int i = sint num_elements \<and> int i < sint edges then 0
                   else d_scanned_edges ! i)"
    proof (cases "int i < sint num_elements")
      case True
      then have tn: "i < nat (sint num_elements)" by linarith
      have vi: "0 \<le> sint (d_queue ! i)" "sint (d_queue ! i) < sint nodes"
        using fr tn by (auto simp: frontier_wf_def list_all_iff)
      have "GetNeighborListLength row_offsets (d_queue ! i) nodes edges =
              Some (row_offsets ! (nat (sint (d_queue ! i)) + 1)
                    - row_offsets ! nat (sint (d_queue ! i)))"
        using csr vi by (rule GetNeighborListLength_csr)
      then show ?thesis using a True inthr by simp
    next
      case False
      then show ?thesis using a inthr by auto
    qed
  qed
  moreover have "GetNeighborListLength row_offsets v nodes edges =
             Some (row_offsets ! (nat (sint v) + 1) - row_offsets ! nat (sint v))"
    using csr v by (rule GetNeighborListLength_csr)
  ultimately show ?thesis
    using r l unfolding GetEdgeCounts_kernel_def by blast
qed

text \<open>
  C3. The claim is that \<open>GetEdgeCounts\<close> writes, at each frontier position
  \<open>i < num_elements\<close>, the neighbor-list length of the frontier element \<open>d_queue[i]\<close> and a
  zero-length entry at the sentinel position \<open>num_elements\<close>, so that the output length is
  the sum of the neighbor-list lengths of the frontier. The kernel does not do this in two
  cases; in each the cells of \<open>d_scanned_edges\<close> hold 7 before the launch.

  A thread returns before it writes when \<open>my_id >= max_edge\<close>. On the graph with two
  vertices and the single edge \<open>0->1\<close> (\<open>max_edge = 1\<close>) the frontier \<open>[0]\<close> gets its count 1,
  but the sentinel cell at position 1 is not written and keeps the 7; with the frontier
  \<open>[0,1]\<close> the count of vertex 1 and the sentinel are both left at 7, where 0 and 0 are
  wanted.

  For a frontier of edges (\<open>E2V\<close>, \<open>E2E\<close>) the thread takes the vertex from
  \<open>d_column_indices[my_id]\<close>, the destination of the edge whose index is the thread's own
  position, not from \<open>d_column_indices[d_queue[my_id]]\<close>, the destination of the frontier
  edge. On the graph \<open>0->1\<close>, \<open>0->2\<close>, \<open>1->0\<close>, \<open>1->2\<close>, \<open>2->0\<close> with the frontier of edges
  \<open>[4,2]\<close>, which both end in vertex 0 with its two edges, the counts are 2 and 1 instead
  of 2 and 2.
\<close>

theorem C3_edge_counts_stale_or_of_wrong_element:
  "csr_wf [0, 1, 1] [1] 2 1
   \<and> frontier_wf [0] 1 2
   \<and> GetEdgeCounts_kernel [0, 1, 1] [1] [] [] [0] [7, 7] 1 2 1 V2V False False 2
       = Some [1, 7]
   \<and> edge_counts_expected [0, 1, 1] [1] V2V [0] = [1, 0]
   \<and> frontier_wf [0, 1] 2 2
   \<and> GetEdgeCounts_kernel [0, 1, 1] [1] [] [] [0, 1] [7, 7, 7] 2 2 1 V2V False False 4
       = Some [1, 7, 7]
   \<and> edge_counts_expected [0, 1, 1] [1] V2V [0, 1] = [1, 0, 0]
   \<and> csr_wf [0, 2, 4, 5] [1, 2, 0, 2, 0] 3 5
   \<and> GetEdgeCounts_kernel [0, 2, 4, 5] [1, 2, 0, 2, 0] [] [] [4, 2] [7, 7, 7] 2 3 5 E2E
         False False 3
       = Some [2, 1, 0]
   \<and> edge_counts_expected [0, 2, 4, 5] [1, 2, 0, 2, 0] E2E [4, 2] = [2, 2, 0]"
proof -
  have csr1: "csr_wf [0, 1, 1] [1] 2 1" by (simp add: csr_wf_def)
  have fr1: "frontier_wf [0] 1 2" by (simp add: frontier_wf_def list_all_iff)
  have fr2: "frontier_wf [0, 1] 2 2"
    by (simp add: frontier_wf_def list_all_iff less_Suc_eq numeral_2_eq_2)
  have csr2: "csr_wf [0, 2, 4, 5] [1, 2, 0, 2, 0] 3 5" by (simp add: csr_wf_def)
  have k1: "GetEdgeCounts_kernel [0, 1, 1] [1] [] [] [0] [7, 7] 1 2 1 V2V False False 2
       = Some [1, 7]"
    by code_simp
  have e1: "edge_counts_expected [0, 1, 1] [1] V2V [0] = [1, 0]" by code_simp
  have k2: "GetEdgeCounts_kernel [0, 1, 1] [1] [] [] [0, 1] [7, 7, 7] 2 2 1 V2V False False 4
       = Some [1, 7, 7]"
    by code_simp
  have e2: "edge_counts_expected [0, 1, 1] [1] V2V [0, 1] = [1, 0, 0]" by code_simp
  have k3: "GetEdgeCounts_kernel [0, 2, 4, 5] [1, 2, 0, 2, 0] [] [] [4, 2] [7, 7, 7] 2 3 5 E2E
         False False 3
       = Some [2, 1, 0]"
    by code_simp
  have e3: "edge_counts_expected [0, 2, 4, 5] [1, 2, 0, 2, 0] E2E [4, 2] = [2, 2, 0]"
    by code_simp
  show ?thesis using csr1 fr1 k1 e1 fr2 k2 e2 csr2 k3 e3 by (intro conjI)
qed





subsection \<open>The forward log of betweenness centrality and its replay\<close>






















subsection \<open>The value returned by the connected-components entry point\<close>

lemma runCC_component_ids_alive:
  "runCC extracted n mem = (grapho, mem') \<Longrightarrow>
   node_value1 grapho = Some (length mem) \<and> mem' ! length mem = Alive extracted"
  by (auto simp: runCC_def alloc_def end_lifetime_def Let_def nth_append)

lemma runCC_aggregation_dead:
  "runCC extracted n mem = (grapho, mem') \<Longrightarrow>
   aggregation grapho = Some (Suc (length mem)) \<and> mem' ! Suc (length mem) = Dead"
  by (auto simp: runCC_def alloc_def end_lifetime_def Let_def nth_append)

lemma cc_undefined: "cc num_nodes extracted n mem = None"
  by (simp add: cc_def runCC_def alloc_def end_lifetime_def load_def Let_def nth_append)

text \<open>
  C9. For the graph with two vertices joined by an edge, the problem delivers the ids
  \<open>[0, 0]\<close> and the count 1. The copy into \<open>component\<close> is defined and yields \<open>[0, 0]\<close>, but
  the count is read through \<open>grapho->aggregation\<close>, which points to the local variable
  \<open>num_components\<close> of \<open>runCC\<close>, dead since \<open>runCC\<close> returned: the value \<open>cc\<close> returns is
  undefined.
\<close>

theorem C9_cc_returns_dead_local:
  "cc 2 [0, 0] 1 [] = None
   \<and> load (snd (runCC [0, 0] 1 [])) (the (node_value1 (fst (runCC [0, 0] 1 [])))) 2 = Some [0, 0]
   \<and> snd (runCC [0, 0] 1 []) ! the (aggregation (fst (runCC [0, 0] 1 []))) = Dead
   \<and> load (snd (runCC [0, 0] 1 [])) (the (aggregation (fst (runCC [0, 0] 1 [])))) 1 = None"
  by (simp add: cc_def runCC_def alloc_def end_lifetime_def load_def Let_def)

subsection \<open>The load-balanced advance kernels\<close>

text \<open>
  The example graph: three vertices and five edges, \<open>0: 0->1\<close>, \<open>1: 0->2\<close>, \<open>2: 1->0\<close>,
  \<open>3: 1->2\<close>, \<open>4: 2->0\<close>, that is \<open>row_offsets = [0,2,4,5]\<close> and
  \<open>column_indices = [1,2,0,2,0]\<close>. The frontier of edges \<open>[0,1]\<close> ends in the vertices
  \<open>1\<close> and \<open>2\<close>, whose neighbor lists have \<open>2\<close> and \<open>1\<close> edges, so
  \<open>d_scanned_edges = [2,3]\<close> and the output has three positions. One block of two
  threads works on it.

  \<open>RelaxLightEdges\<close> visits the edges \<open>2\<close>, \<open>3\<close> and \<open>4\<close> and writes them at the positions
  \<open>0\<close>, \<open>1\<close> and \<open>2\<close>.
\<close>

lemma RelaxLightEdges_E2E_example:
  "RelaxLightEdges_kernel 1 2 log_CondEdge log_ApplyEdge True 0
     [0, 2, 4, 5] [] [1, 2, 0, 2, 0] [] [2, 3] [0, 1] 2 3 5 E2E False False EMPTY NONE None
     ([], Some [7, 7, 7], [])
   = Some ([(1, 0, 2), (2, 0, 4), (1, 2, 3)], Some [2, 3, 4], [])"
  by code_simp

text \<open>
  So does \<open>RelaxPartitionedEdges2\<close> on the frontier of vertices \<open>[1,2]\<close>, which has the same
  neighbor lists.
\<close>

lemma RelaxPartitionedEdges2_V2E_example:
  "RelaxPartitionedEdges2_kernel 1 2 log_CondEdge log_ApplyEdge True 0
     [0, 2, 4, 5] [1, 2, 0, 2, 0] [] [2, 3] [0, 2] [1, 2] 2 3 3 5 V2E False EMPTY NONE None
     ([], Some [7, 7, 7], [])
   = Some ([(1, 0, 2), (2, 0, 4), (1, 2, 3)], Some [2, 3, 4], [])"
  by code_simp

text \<open>
  C2. The claim is that one load-balanced advance step applies \<open>CondEdge\<close> to every
  outgoing edge of every frontier element exactly once, applies \<open>ApplyEdge\<close> once to each
  accepted edge and writes the neighbor vertex (\<open>V2V\<close>) or the edge index (\<open>V2E\<close>, \<open>E2E\<close>)
  at the edge's position in the output.

  \<open>RelaxPartitionedEdges2\<close> does not do this for a frontier of edges. On the example graph
  with the frontier of edges \<open>[0,1]\<close> in \<open>E2E\<close> mode the edges to visit are \<open>2\<close>, \<open>3\<close> and
  \<open>4\<close>. Thread \<open>0\<close> starts in the first frontier element and reaches the second one in its
  second pass (\<open>i = 2\<close>), where it searches again; there the kernel takes
  \<open>column_indices[s_vertices[v_index]]\<close> as the vertex although \<open>s_vertices\<close> already
  holds the destination vertex of the frontier edge. The thread goes on with the neighbor
  list of vertex \<open>column_indices[2] = 0\<close> instead of vertex \<open>2\<close>: the functor is applied to
  edge \<open>0\<close> (from \<open>0\<close> to \<open>1\<close>), never to edge \<open>4\<close>, and position \<open>2\<close> of the output
  holds \<open>0\<close>.
\<close>

theorem C2_partitioned_E2E_visits_wrong_edge:
  "RelaxPartitionedEdges2_kernel 1 2 log_CondEdge log_ApplyEdge True 0
     [0, 2, 4, 5] [1, 2, 0, 2, 0] [] [2, 3] [0, 2] [0, 1] 2 3 3 5 E2E False EMPTY NONE None
     ([], Some [7, 7, 7], [])
   = Some ([(1, 0, 2), (0, 1, 0), (1, 2, 3)], Some [2, 3, 0], [])
   \<and> edges_to_visit [0, 2, 4, 5] [1, 2, 0, 2, 0] E2E [0, 1] = [2, 3, 4]"
  by code_simp

end
